theory Spec2Isabelle
  imports Main "HOL-Library.Sublist"
begin

section \<open>Data model of the cluster status code in postgresql_server.py\<close>

text \<open>
  Node addresses are the strings the etcd member list, the patroni DSN and the haproxy
  table give; an unresolved master is Python's \<^verbatim>\<open>None\<close>.
\<close>

type_synonym address = string

text \<open>
  The exceptions the modelled functions raise. \<open>DBManagementError\<close> carries the
  message of the raise statement, since the source tells its failures apart only by
  that text.
\<close>

datatype error =
    DBNodeListError string
  | DBManagementError string
  | TypeError
  | IndexError

text \<open>
  The source compares \<^verbatim>\<open>replica.get('log_location') < master_log_location\<close>
  where the left side may be \<^verbatim>\<open>None\<close>. Python 2 orders \<^verbatim>\<open>None\<close>
  below every integer, Python 3 raises \<^verbatim>\<open>TypeError\<close>; the file does not say
  which interpreter runs it, so the model takes the interpreter as a parameter.
\<close>

datatype interp = Py2 | Py3

text \<open>
  The JSON document of a node's patroni REST endpoint, reduced to the keys the source
  reads: \<^verbatim>\<open>state\<close>, \<^verbatim>\<open>timeline\<close>, \<^verbatim>\<open>xlog.location\<close>,
  \<^verbatim>\<open>xlog.replayed_location\<close> and \<^verbatim>\<open>replication\<close> (pairs of
  \<^verbatim>\<open>client_addr\<close> and \<^verbatim>\<open>sync_state\<close>). A missing key is \<open>None\<close>
  (what \<^verbatim>\<open>dict.get\<close> returns). Log locations are byte offsets into the
  write-ahead log and timelines are counters, hence natural numbers.
\<close>

record raw_status =
  rs_state :: "string option"
  rs_timeline :: "nat option"
  rs_location :: "nat option"
  rs_replayed_location :: "nat option"
  rs_replication :: "(address \<times> string) list"

definition empty_raw :: raw_status where
  "empty_raw = \<lparr>rs_state = None, rs_timeline = None, rs_location = None,
                 rs_replayed_location = None, rs_replication = []\<rparr>"

text \<open>
  The node dictionary built by \<^verbatim>\<open>_get_node_status\<close>. The keys
  \<^verbatim>\<open>log_location\<close> and \<^verbatim>\<open>timeline\<close> are absent for a node without DB
  status and are only ever read with \<^verbatim>\<open>dict.get\<close>, so absent and null are both
  \<open>None\<close>.
\<close>

record node =
  node_ip :: "address option"
  alive :: bool
  errors :: "string list"
  raw_status :: raw_status
  log_location :: "nat option"
  state :: string
  timeline :: "nat option"
  etcd_state :: string

text \<open>The status codes of class \<^verbatim>\<open>PostgresqlServer\<close>.\<close>

definition HEALTHY :: nat where "HEALTHY = 0"
definition DEGRADED :: nat where "DEGRADED = 1"
definition DOWN :: nat where "DOWN = 2"

section \<open>Probing one node\<close>

text \<open>
  \<^verbatim>\<open>_get_raw_node_status\<close>: no request is made for the address \<^verbatim>\<open>None\<close>.
  The HTTP request is the parameter \<open>probe\<close>; it yields \<open>None\<close> where the source
  gets an empty dictionary (a dead node) and the parsed document otherwise.
\<close>

definition get_raw_node_status :: "(address \<Rightarrow> 'a option) \<Rightarrow> address option \<Rightarrow> 'a option" where
  "get_raw_node_status probe address =
     (case address of None \<Rightarrow> None | Some a \<Rightarrow> probe a)"

text \<open>\<^verbatim>\<open>_get_node_status(address, sync_replica, master)\<close>.\<close>

definition get_node_status ::
  "(address \<Rightarrow> raw_status option) \<Rightarrow> (address \<Rightarrow> string option) \<Rightarrow>
   address option \<Rightarrow> bool \<Rightarrow> bool \<Rightarrow> node" where
  "get_node_status db_probe etcd_probe address sync_replica master =
     (let status = get_raw_node_status db_probe address;
          etcd_status = get_raw_node_status etcd_probe address;
          node0 = \<lparr>node_ip = address, alive = False, errors = [],
                   raw_status = (case status of None \<Rightarrow> empty_raw | Some s \<Rightarrow> s),
                   log_location = None, state = [], timeline = None, etcd_state = []\<rparr>;
          node1 =
            (case status of
               Some s \<Rightarrow>
                 (let n = (if master then
                             node0\<lparr>log_location := rs_location s, state := ''leader''\<rparr>
                           else if sync_replica then
                             node0\<lparr>log_location := rs_replayed_location s,
                                   state := ''sync_replica''\<rparr>
                           else
                             node0\<lparr>log_location := rs_replayed_location s,
                                   state := ''async_replica''\<rparr>);
                      n' = (if rs_state s = Some ''running'' then n\<lparr>alive := True\<rparr>
                            else n\<lparr>errors := errors n @ [''Node not running'']\<rparr>)
                  in n'\<lparr>timeline := rs_timeline s\<rparr>)
             | None \<Rightarrow>
                 node0\<lparr>state := ''dead'',
                       errors := errors node0 @ [''Could not retrieve DB status'']\<rparr>)
      in (case etcd_status of
            Some es \<Rightarrow> node1\<lparr>etcd_state := es\<rparr>
          | None \<Rightarrow>
              node1\<lparr>etcd_state := ''dead'',
                    errors := errors node1 @ [''Could not retrieve etcd status'']\<rparr>))"

section \<open>Quorum evaluation\<close>

text \<open>\<^verbatim>\<open>_get_sync_replicas\<close>: the addresses the master reports as synchronous.\<close>

definition get_sync_replicas :: "raw_status \<Rightarrow> address list" where
  "get_sync_replicas master_status =
     map fst (filter (\<lambda>replica. snd replica = ''sync'') (rs_replication master_status))"

text \<open>
  The condition of the synchronous branch,
  \<^verbatim>\<open>master_log_location and replica.get('log_location') < master_log_location\<close>.
  \<^verbatim>\<open>and\<close> stops at a falsy left side (\<^verbatim>\<open>None\<close> or 0).
\<close>

definition sync_behind :: "interp \<Rightarrow> nat option \<Rightarrow> nat option \<Rightarrow> error + bool" where
  "sync_behind py master_log_location replica_log_location =
     (case master_log_location of
        None \<Rightarrow> Inr False
      | Some m \<Rightarrow>
          if m = 0 then Inr False
          else (case replica_log_location of
                  Some l \<Rightarrow> Inr (l < m)
                | None \<Rightarrow> (case py of Py2 \<Rightarrow> Inr True | Py3 \<Rightarrow> Inl TypeError)))"

text \<open>
  The condition of the asynchronous branch,
  \<^verbatim>\<open>master_timeline and replica.get('timeline') != master_timeline\<close>.
\<close>

definition timeline_differs :: "nat option \<Rightarrow> nat option \<Rightarrow> bool" where
  "timeline_differs master_timeline replica_timeline =
     (case master_timeline of
        None \<Rightarrow> False
      | Some t \<Rightarrow> t \<noteq> 0 \<and> replica_timeline \<noteq> Some t)"

text \<open>
  \<^verbatim>\<open>lag_bytes = master_log_location - replica.get('log_location')\<close>: the subtraction
  has no guard, and \<^verbatim>\<open>None\<close> on either side raises \<^verbatim>\<open>TypeError\<close>.
\<close>

definition lag_bytes :: "nat option \<Rightarrow> nat option \<Rightarrow> error + int" where
  "lag_bytes master_log_location replica_log_location =
     (case master_log_location of
        None \<Rightarrow> Inl TypeError
      | Some m \<Rightarrow>
          (case replica_log_location of
             None \<Rightarrow> Inl TypeError
           | Some l \<Rightarrow> Inr (int m - int l)))"

text \<open>
  \<^verbatim>\<open>lag_mb = lag_bytes / 1024.0 / 1024.0\<close> and the test \<^verbatim>\<open>lag_mb > 2\<close>. Dividing
  a double by a power of two is exact and converting an integer to a double is monotone,
  so the test is the integer comparison with \<open>2 * 1024 * 1024\<close>.
\<close>

definition lag_excessive :: "int \<Rightarrow> bool" where
  "lag_excessive lag = (lag > 2 * 1024 * 1024)"

text \<open>Decimal digits of a natural number, as \<^verbatim>\<open>str\<close> prints them.\<close>

definition digit_char :: "nat \<Rightarrow> char" where
  "digit_char d = ''0123456789'' ! d"

function str_nat :: "nat \<Rightarrow> string" where
  "str_nat n = (if n < 10 then [digit_char n]
                else str_nat (n div 10) @ [digit_char (n mod 10)])"
  by pat_completeness auto
termination
  by (relation "measure id") auto

declare str_nat.simps [simp del]

text \<open>
  Rounding of the quotient \<open>a / b\<close> to an integer, ties to even: what the
  \<^verbatim>\<open>.2f\<close> conversion does with the exact value of a double.
\<close>

definition round_half_even :: "nat \<Rightarrow> nat \<Rightarrow> nat" where
  "round_half_even a b =
     (let q = a div b; r = a mod b
      in if 2 * r < b then q
         else if 2 * r > b then q + 1
         else if even q then q else q + 1)"

text \<open>
  \<^verbatim>\<open>'{amount:.2f}'.format(amount=lag_mb)\<close> for a positive lag (the only place the
  source formats one): the lag in hundredths of a MiB, then integer part, point and two
  digits. The double \<open>lag / 2^20\<close> is exact for every lag below \<open>2^53\<close> bytes.
\<close>

definition format_2f_mib :: "int \<Rightarrow> string" where
  "format_2f_mib lag =
     (let h = round_half_even (100 * nat lag) (1024 * 1024)
      in str_nat (h div 100) @ ''.'' @ [digit_char (h mod 100 div 10), digit_char (h mod 10)])"

text \<open>
  The body of the loop \<^verbatim>\<open>for replica in replicas\<close>, in three parts: the synchronous
  branch, the \<^verbatim>\<open>else\<close> branch, and the check for a second master. Each takes the
  status so far and the replica, and returns both updated (the source appends to the
  replica's error list in place).
\<close>

definition check_sync_replica ::
  "interp \<Rightarrow> nat option \<Rightarrow> nat \<Rightarrow> node \<Rightarrow> error + (nat \<times> node)" where
  "check_sync_replica py master_log_location status replica =
     (case sync_behind py master_log_location (log_location replica) of
        Inl e \<Rightarrow> Inl e
      | Inr behind \<Rightarrow>
          if behind then
            Inr (max status DOWN, replica\<lparr>errors := errors replica @ [''Out of sync'']\<rparr>)
          else Inr (status, replica))"

definition check_async_replica ::
  "nat option \<Rightarrow> nat option \<Rightarrow> nat \<Rightarrow> node \<Rightarrow> error + (nat \<times> node)" where
  "check_async_replica master_log_location master_timeline status replica =
     (let (status1, replica1) =
            (if timeline_differs master_timeline (timeline replica) then
               (max status DEGRADED, replica\<lparr>errors := errors replica @ [''Out of sync'']\<rparr>)
             else (status, replica))
      in case lag_bytes master_log_location (log_location replica1) of
           Inl e \<Rightarrow> Inl e
         | Inr lag \<Rightarrow>
             if lag_excessive lag then
               Inr (status1,
                    replica1\<lparr>errors := errors replica1 @
                                         [''Lag: '' @ format_2f_mib lag @ ''MiB'']\<rparr>)
             else Inr (status1, replica1))"

definition check_extra_master :: "node \<Rightarrow> node" where
  "check_extra_master replica =
     (if rs_state (raw_status replica) = Some ''master'' then
        replica\<lparr>errors := errors replica @ [''EXTRA MASTER'']\<rparr>
      else replica)"

definition check_replica ::
  "interp \<Rightarrow> nat option \<Rightarrow> nat option \<Rightarrow> nat \<Rightarrow> node \<Rightarrow> error + (nat \<times> node)" where
  "check_replica py master_log_location master_timeline status replica =
     (case (if state replica = ''sync_replica'' then
              check_sync_replica py master_log_location status replica
            else
              check_async_replica master_log_location master_timeline status replica) of
        Inl e \<Rightarrow> Inl e
      | Inr (status', replica') \<Rightarrow> Inr (status', check_extra_master replica'))"

text \<open>The loop itself: the first exception ends the evaluation.\<close>

fun check_replicas ::
  "interp \<Rightarrow> nat option \<Rightarrow> nat option \<Rightarrow> nat \<Rightarrow> node list \<Rightarrow> error + (nat \<times> node list)" where
  "check_replicas py mll mtl status [] = Inr (status, [])"
| "check_replicas py mll mtl status (replica # replicas) =
     (case check_replica py mll mtl status replica of
        Inl e \<Rightarrow> Inl e
      | Inr (status', replica') \<Rightarrow>
          (case check_replicas py mll mtl status' replicas of
             Inl e \<Rightarrow> Inl e
           | Inr (status'', replicas') \<Rightarrow> Inr (status'', replica' # replicas')))"

text \<open>The checks before the loop, each a step from the status so far to the next.\<close>

definition check_master_found :: "node \<Rightarrow> nat \<Rightarrow> nat" where
  "check_master_found master status =
     (if node_ip master = None then max status DOWN else status)"

definition check_master_alive :: "node \<Rightarrow> nat \<Rightarrow> nat" where
  "check_master_alive master status =
     (if \<not> alive master then max status DOWN else status)"

definition check_sync_ips :: "address list \<Rightarrow> nat \<Rightarrow> nat" where
  "check_sync_ips sync_ips status =
     (if sync_ips = [] then max status DOWN else status)"

definition count_etcd_state :: "string \<Rightarrow> node list \<Rightarrow> nat" where
  "count_etcd_state s nodes = length (filter (\<lambda>n. etcd_state n = s) nodes)"

definition check_etcd_leaders :: "nat \<Rightarrow> nat \<Rightarrow> nat" where
  "check_etcd_leaders etcd_leaders status =
     (if etcd_leaders \<noteq> 1 then max status DOWN else status)"

definition check_etcd_followers :: "nat \<Rightarrow> nat \<Rightarrow> nat \<Rightarrow> nat \<Rightarrow> nat" where
  "check_etcd_followers etcd_followers majority_requirement n_replicas status =
     (if etcd_followers < majority_requirement then max status DOWN
      else if etcd_followers < n_replicas then max status DEGRADED
      else status)"

text \<open>
  The status on entry to the replica loop. When the master has no address the etcd
  counts run over the replicas alone (\<^verbatim>\<open>db_nodes = replicas\<close>), while
  \<^verbatim>\<open>member_count\<close> was taken before and still counts the master.
\<close>

definition status_before_replicas :: "node \<Rightarrow> node list \<Rightarrow> nat" where
  "status_before_replicas master replicas =
     (let member_count = 1 + length replicas;
          majority_requirement = member_count div 2;
          sync_ips = get_sync_replicas (raw_status master);
          db_nodes = (if node_ip master = None then replicas else master # replicas);
          status = check_master_found master HEALTHY;
          status = check_master_alive master status;
          status = check_sync_ips sync_ips status;
          etcd_followers = count_etcd_state ''StateFollower'' db_nodes;
          etcd_leaders = count_etcd_state ''StateLeader'' db_nodes;
          status = check_etcd_leaders etcd_leaders status
      in check_etcd_followers etcd_followers majority_requirement (length replicas) status)"

text \<open>
  \<^verbatim>\<open>_determine_cluster_status(db_nodes)\<close>. \<^verbatim>\<open>db_nodes[0]\<close> raises
  \<^verbatim>\<open>IndexError\<close> on an empty list. The node list returned is the one the etcd checks
  ran over, with the replicas as the loop left them.
\<close>

definition determine_cluster_status :: "interp \<Rightarrow> node list \<Rightarrow> error + (nat \<times> node list)" where
  "determine_cluster_status py db_nodes =
     (case db_nodes of
        [] \<Rightarrow> Inl IndexError
      | master # replicas \<Rightarrow>
          (let master_log_location = rs_location (raw_status master);
               master_timeline = rs_timeline (raw_status master)
           in case check_replicas py master_log_location master_timeline
                     (status_before_replicas master replicas) replicas of
                Inl e \<Rightarrow> Inl e
              | Inr (status, replicas') \<Rightarrow>
                  Inr (status,
                       if node_ip master = None then replicas' else master # replicas')))"

text \<open>
  The statuses one evaluation passes through, in the order of the checks: the initial
  \<^verbatim>\<open>HEALTHY\<close>, the value after each of the five checks before the loop, and the value
  after each replica the loop finished with.
\<close>

fun replicas_trace ::
  "interp \<Rightarrow> nat option \<Rightarrow> nat option \<Rightarrow> nat \<Rightarrow> node list \<Rightarrow> nat list" where
  "replicas_trace py mll mtl status [] = []"
| "replicas_trace py mll mtl status (replica # replicas) =
     (case check_replica py mll mtl status replica of
        Inl e \<Rightarrow> []
      | Inr (status', replica') \<Rightarrow> status' # replicas_trace py mll mtl status' replicas)"

definition status_trace :: "interp \<Rightarrow> node list \<Rightarrow> nat list" where
  "status_trace py db_nodes =
     (case db_nodes of
        [] \<Rightarrow> []
      | master # replicas \<Rightarrow>
          (let member_count = 1 + length replicas;
               majority_requirement = member_count div 2;
               sync_ips = get_sync_replicas (raw_status master);
               nodes = (if node_ip master = None then replicas else master # replicas);
               s0 = HEALTHY;
               s1 = check_master_found master s0;
               s2 = check_master_alive master s1;
               s3 = check_sync_ips sync_ips s2;
               s4 = check_etcd_leaders (count_etcd_state ''StateLeader'' nodes) s3;
               s5 = check_etcd_followers (count_etcd_state ''StateFollower'' nodes)
                      majority_requirement (length replicas) s4
           in [s0, s1, s2, s3, s4, s5] @
              replicas_trace py (rs_location (raw_status master))
                (rs_timeline (raw_status master)) s5 replicas))"

text \<open>
  \<^verbatim>\<open>get_cluster_status\<close>, from the resolved addresses on: the master's node status,
  each replica's (synchronous when the master lists its address as such), and the
  evaluation of the list.
\<close>

definition get_cluster_status ::
  "interp \<Rightarrow> (address \<Rightarrow> raw_status option) \<Rightarrow> (address \<Rightarrow> string option) \<Rightarrow>
   address option \<Rightarrow> address list \<Rightarrow> error + (nat \<times> node list)" where
  "get_cluster_status py db_probe etcd_probe master_address replica_addresses =
     (let master = get_node_status db_probe etcd_probe master_address False True;
          replicas =
            map (\<lambda>address.
                   get_node_status db_probe etcd_probe (Some address)
                     (address \<in> set (get_sync_replicas (raw_status master))) False)
                replica_addresses
      in determine_cluster_status py (master # replicas))"

section \<open>Topology resolution\<close>

text \<open>
  What the membership operations read and change outside the process:
  whether \<^verbatim>\<open>DATABASE_SERVICE\<close> and \<^verbatim>\<open>MANAGER_SERVICE\<close> are in
  \<^verbatim>\<open>config[SERVICES_TO_INSTALL]\<close>; the output of \<^verbatim>\<open>etcdctl cluster-health\<close>;
  the dictionary of \<^verbatim>\<open>_get_etcd_members\<close> (member address to member id, as its
  items in iteration order); the first match of \<^verbatim>\<open>host=(.*) port=5432\<close> in the
  output of \<^verbatim>\<open>patronictl dsn\<close>, \<open>None\<close> when there is none; the rows of
  \<^verbatim>\<open>common.get_haproxy_servers\<close>; the \<^verbatim>\<open>pg_hba\<close> list of the patroni
  configuration stored in etcd under \<^verbatim>\<open>/db/postgres/config\<close> and the rest of that
  document; the lines of \<^verbatim>\<open>/etc/haproxy/haproxy.cfg\<close>; and the services restarted
  so far.
\<close>

record backend =
  bk_svname :: string
  bk_status :: string

record cluster =
  db_service :: bool
  manager_service :: bool
  etcd_cluster_health :: string
  etcd_members :: "(address \<times> string) list"
  dsn_master :: "address option"
  haproxy_servers :: "backend list"
  pg_hba :: "string list"
  dcs_conf_rest :: string
  haproxy_cfg :: "string list"
  restarted :: "string list"

text \<open>\<^verbatim>\<open>str.split(sep)\<close> for a one-character separator.\<close>

fun split_on :: "char \<Rightarrow> string \<Rightarrow> string list" where
  "split_on sep [] = [[]]"
| "split_on sep (c # cs) =
     (if c = sep then [] # split_on sep cs
      else (case split_on sep cs of
              [] \<Rightarrow> [[c]]
            | w # ws \<Rightarrow> (c # w) # ws))"

text \<open>
  \<^verbatim>\<open>backend['svname'].split('_')[1]\<close>: the index raises \<^verbatim>\<open>IndexError\<close> when the
  name has no underscore.
\<close>

definition server_name :: "backend \<Rightarrow> error + address" where
  "server_name b =
     (case split_on (CHR ''_'') (bk_svname b) of
        _ # name # _ \<Rightarrow> Inr name
      | _ \<Rightarrow> Inl IndexError)"

text \<open>
  The loop over the haproxy rows: a row that is \<^verbatim>\<open>UP\<close> overwrites
  \<^verbatim>\<open>master\<close>, any other row is appended to \<^verbatim>\<open>replicas\<close>.
\<close>

fun scan_backends ::
  "address option \<Rightarrow> address list \<Rightarrow> backend list \<Rightarrow> error + (address option \<times> address list)" where
  "scan_backends master replicas [] = Inr (master, replicas)"
| "scan_backends master replicas (b # bs) =
     (case server_name b of
        Inl e \<Rightarrow> Inl e
      | Inr name \<Rightarrow>
          if bk_status b = ''UP'' then scan_backends (Some name) replicas bs
          else scan_backends master (replicas @ [name]) bs)"

text \<open>\<^verbatim>\<open>_get_cluster_addresses\<close>.\<close>

definition get_cluster_addresses :: "cluster \<Rightarrow> error + (address option \<times> address list)" where
  "get_cluster_addresses c =
     (if db_service c then
        (if sublist ''cluster is unavailable'' (etcd_cluster_health c)
            \<or> sublist ''failed to list members'' (etcd_cluster_health c)
         then Inl (DBNodeListError
                (''Etcd is not responding on this node. '' @
                 ''Please retry this command on another DB cluster node.''))
         else (let nodes = map fst (etcd_members c);
                   master = dsn_master c
               in Inr (master, filter (\<lambda>node. Some node \<noteq> master) nodes)))
      else if manager_service c then scan_backends None [] (haproxy_servers c)
      else Inl (DBNodeListError ''Can only list DB nodes from a manager or DB node.''))"

section \<open>Removing a node\<close>

definition LAST_REPLICA :: string where
  "LAST_REPLICA = ''The last replica cannot be removed. A new replica must be '' @
                  ''added before removing the target node.''"

definition MASTER_NOT_REMOVABLE :: string where
  "MASTER_NOT_REMOVABLE = ''The currently active DB master node cannot be removed. '' @
                          ''Please set the master to a different node before retrying '' @
                          ''this command.''"

definition NODE_NOT_FOUND :: "address \<Rightarrow> string" where
  "NODE_NOT_FOUND addr = ''Cannot find node with address '' @ addr @ '' for removal.''"

text \<open>\<^verbatim>\<open>_add_node_to_pg_hba\<close>: the two entries a node gets, put in front.\<close>

definition add_node_to_pg_hba :: "string list \<Rightarrow> address \<Rightarrow> string list" where
  "add_node_to_pg_hba entries node_addr =
     [''hostssl all postgres '' @ node_addr @ ''/32 md5'',
      ''hostssl replication replicator '' @ node_addr @ ''/32 md5''] @ entries"

text \<open>\<^verbatim>\<open>exclusion_string = ' {addr}/32 '.format(addr=address)\<close>.\<close>

definition exclusion_string :: "address \<Rightarrow> string" where
  "exclusion_string addr = '' '' @ addr @ ''/32 ''"

text \<open>
  The effect of \<^verbatim>\<open>etcdctl member remove node_id\<close> on the member list.
\<close>

definition etcd_member_remove :: "string \<Rightarrow> cluster \<Rightarrow> cluster" where
  "etcd_member_remove node_id c =
     c\<lparr>etcd_members := filter (\<lambda>member. snd member \<noteq> node_id) (etcd_members c)\<rparr>"

definition HAPROXY_NODE_ENTRY :: "address \<Rightarrow> string" where
  "HAPROXY_NODE_ENTRY addr =
     ''    server postgresql_'' @ addr @ ''_5432 '' @ addr @ '':5432 '' @
     ''maxconn 100 check check-ssl port 8008 ca-file /etc/haproxy/ca.crt''"

text \<open>
  \<^verbatim>\<open>sed -i /entry/d\<close> deletes the lines in which the entry matches as a regular
  expression. The entry is literal text except for its dots, which match any character
  (for an address without another metacharacter of sed).
\<close>

fun sed_match_here :: "string \<Rightarrow> string \<Rightarrow> bool" where
  "sed_match_here [] text = True"
| "sed_match_here (p # ps) [] = False"
| "sed_match_here (p # ps) (c # cs) = ((p = CHR ''.'' \<or> p = c) \<and> sed_match_here ps cs)"

fun sed_match :: "string \<Rightarrow> string \<Rightarrow> bool" where
  "sed_match pattern [] = sed_match_here pattern []"
| "sed_match pattern (c # cs) = (sed_match_here pattern (c # cs) \<or> sed_match pattern cs)"

text \<open>\<^verbatim>\<open>_restart_manager_db_dependent_services\<close>.\<close>

definition restart_manager_db_dependent_services :: "cluster \<Rightarrow> cluster" where
  "restart_manager_db_dependent_services c =
     c\<lparr>restarted := restarted c @
                     [''haproxy'', ''cloudify-amqp-postgres'', ''cloudify-restservice'']\<rparr>"

text \<open>
  \<^verbatim>\<open>remove_cluster_node(address)\<close>. The two guards come in the order of the source:
  the replica count first, the master second. On a database node the etcd member is
  removed and the \<^verbatim>\<open>pg_hba\<close> list is read, filtered and written back; on a manager
  the haproxy line is deleted and the services are restarted.
\<close>

definition remove_cluster_node :: "cluster \<Rightarrow> address \<Rightarrow> error + cluster" where
  "remove_cluster_node c address =
     (case get_cluster_addresses c of
        Inl e \<Rightarrow> Inl e
      | Inr (master, replicas) \<Rightarrow>
          if length replicas < 2 then Inl (DBManagementError LAST_REPLICA)
          else if Some address = master then Inl (DBManagementError MASTER_NOT_REMOVABLE)
          else if db_service c then
            (case map_of (etcd_members c) address of
               None \<Rightarrow> Inl (DBManagementError (NODE_NOT_FOUND address))
             | Some node_id \<Rightarrow>
                 if node_id = [] then Inl (DBManagementError (NODE_NOT_FOUND address))
                 else
                   (let c1 = etcd_member_remove node_id c
                    in Inr (c1\<lparr>pg_hba :=
                                  filter (\<lambda>entry. \<not> sublist (exclusion_string address) entry)
                                    (pg_hba c1)\<rparr>)))
          else
            Inr (restart_manager_db_dependent_services
                   (c\<lparr>haproxy_cfg :=
                        filter (\<lambda>line. \<not> sed_match (HAPROXY_NODE_ENTRY address) line)
                          (haproxy_cfg c)\<rparr>)))"

section \<open>Changing the master\<close>

text \<open>\<^verbatim>\<open>_get_patroni_id\<close>: \<^verbatim>\<open>'pg' + ip.replace('.', '_')\<close>.\<close>

definition get_patroni_id :: "address \<Rightarrow> string" where
  "get_patroni_id ip = ''pg'' @ map (\<lambda>ch. if ch = CHR ''.'' then CHR ''_'' else ch) ip"

text \<open>
  What \<^verbatim>\<open>set_master\<close> does that can be observed from outside: the switchover command,
  each call of \<^verbatim>\<open>_get_cluster_addresses\<close> in the loop, each \<^verbatim>\<open>time.sleep\<close> with its
  seconds; and what it logs at the end.
\<close>

datatype event = Switchover string | Poll | Sleep nat

datatype report = MasterChanged | MasterNotChanged "address option"

text \<open>
  The loop \<^verbatim>\<open>for i in range(30)\<close>, from iteration \<open>i\<close> with \<open>n\<close> iterations to
  go. \<open>resolve i\<close> is what the call of \<^verbatim>\<open>_get_cluster_addresses\<close> in iteration
  \<open>i\<close> returns or raises. The loop has no \<^verbatim>\<open>break\<close>: it sleeps only after a poll
  that does not show the new master, and goes on polling after one that does.
\<close>

fun wait_for_master ::
  "(nat \<Rightarrow> error + (address option \<times> address list)) \<Rightarrow> address \<Rightarrow> nat \<Rightarrow> nat \<Rightarrow>
   address option \<Rightarrow> error + (address option \<times> event list)" where
  "wait_for_master resolve address i 0 master = Inr (master, [])"
| "wait_for_master resolve address i (Suc n) master =
     (case resolve i of
        Inl e \<Rightarrow> Inl e
      | Inr (master', replicas') \<Rightarrow>
          (case wait_for_master resolve address (Suc i) n master' of
             Inl e \<Rightarrow> Inl e
           | Inr (final_master, events) \<Rightarrow>
               Inr (final_master,
                    Poll # (if master' \<noteq> Some address then [Sleep 1] else []) @ events)))"

text \<open>\<^verbatim>\<open>set_master(address)\<close>.\<close>

definition set_master ::
  "cluster \<Rightarrow> (nat \<Rightarrow> error + (address option \<times> address list)) \<Rightarrow> address \<Rightarrow>
   error + (report \<times> event list)" where
  "set_master c resolve address =
     (case get_cluster_addresses c of
        Inl e \<Rightarrow> Inl e
      | Inr (master, replicas) \<Rightarrow>
          if Some address = master then
            Inl (DBManagementError ''The selected node is the current master.'')
          else if Some address \<notin> set (master # map Some replicas) then
            Inl (DBManagementError
                   (''Cannot make DB node '' @ address @
                    '' master, as it is not part of the cluster.''))
          else if db_service c then
            (case wait_for_master resolve address 0 30 master of
               Inl e \<Rightarrow> Inl e
             | Inr (final_master, events) \<Rightarrow>
                 Inr (if final_master = Some address then MasterChanged
                      else MasterNotChanged final_master,
                      Switchover (get_patroni_id address) # events))
          else Inl (DBManagementError ''Set master can only be run from a DB node.''))"

section \<open>A three-node cluster to evaluate on\<close>

text \<open>
  A master at 192.0.2.1 with log location 8 MiB on timeline 2, which reports 192.0.2.2 as
  its synchronous and 192.0.2.3 as its asynchronous replica. The synchronous replica's
  replayed location and the asynchronous replica's timeline are parameters; the
  asynchronous replica has replayed up to 5 MiB, so it lags by exactly 3 MiB. Every other
  address is a dead node.
\<close>

definition example_raw :: "nat \<Rightarrow> nat \<Rightarrow> (address \<times> string) list \<Rightarrow> raw_status" where
  "example_raw location tline replication =
     \<lparr>rs_state = Some ''running'', rs_timeline = Some tline, rs_location = Some location,
      rs_replayed_location = Some location, rs_replication = replication\<rparr>"

definition example_db_probe :: "nat \<Rightarrow> nat \<Rightarrow> address \<Rightarrow> raw_status option" where
  "example_db_probe sync_location async_timeline a =
     (if a = ''192.0.2.1'' then
        Some (example_raw 8388608 2 [(''192.0.2.2'', ''sync''), (''192.0.2.3'', ''async'')])
      else if a = ''192.0.2.2'' then Some (example_raw sync_location 2 [])
      else if a = ''192.0.2.3'' then Some (example_raw 5242880 async_timeline [])
      else None)"

definition example_etcd_probe :: "address \<Rightarrow> string option" where
  "example_etcd_probe a =
     (if a = ''192.0.2.1'' then Some ''StateLeader''
      else if a = ''192.0.2.2'' \<or> a = ''192.0.2.3'' then Some ''StateFollower''
      else None)"

definition example_master :: "nat \<Rightarrow> nat \<Rightarrow> node" where
  "example_master sync_location async_timeline =
     get_node_status (example_db_probe sync_location async_timeline) example_etcd_probe
       (Some ''192.0.2.1'') False True"

definition example_sync_replica :: "nat \<Rightarrow> nat \<Rightarrow> node" where
  "example_sync_replica sync_location async_timeline =
     get_node_status (example_db_probe sync_location async_timeline) example_etcd_probe
       (Some ''192.0.2.2'') True False"

definition example_async_replica :: "nat \<Rightarrow> nat \<Rightarrow> node" where
  "example_async_replica sync_location async_timeline =
     get_node_status (example_db_probe sync_location async_timeline) example_etcd_probe
       (Some ''192.0.2.3'') False False"

definition example_nodes :: "nat \<Rightarrow> nat \<Rightarrow> node list" where
  "example_nodes sync_location async_timeline =
     [example_master sync_location async_timeline,
      example_sync_replica sync_location async_timeline,
      example_async_replica sync_location async_timeline]"

text \<open>
  The same cluster as a database node sees it, with the \<^verbatim>\<open>pg_hba\<close> list that
  \<^verbatim>\<open>_create_patroni_config\<close> builds for its three nodes, and as a manager sees it
  through haproxy.
\<close>

definition example_pg_hba :: "string list" where
  "example_pg_hba =
     add_node_to_pg_hba
       (add_node_to_pg_hba
          (add_node_to_pg_hba
             [''hostssl replication replicator 127.0.0.1/32 md5'',
              ''hostssl all all 0.0.0.0/0 md5'']
             ''192.0.2.1'')
          ''192.0.2.2'')
       ''192.0.2.3''"

definition example_db_cluster :: "(address \<times> string) list \<Rightarrow> cluster" where
  "example_db_cluster members =
     \<lparr>db_service = True, manager_service = False,
      etcd_cluster_health = ''cluster is healthy'',
      etcd_members = members,
      dsn_master = Some ''192.0.2.1'',
      haproxy_servers = [],
      pg_hba = example_pg_hba,
      dcs_conf_rest = ''{}'',
      haproxy_cfg = [],
      restarted = []\<rparr>"

definition example_members :: "(address \<times> string) list" where
  "example_members =
     [(''192.0.2.1'', ''abc123def''), (''192.0.2.2'', ''abc223def''),
      (''192.0.2.3'', ''abc323def'')]"

definition example_manager_cluster :: "backend list \<Rightarrow> cluster" where
  "example_manager_cluster servers =
     \<lparr>db_service = False, manager_service = True,
      etcd_cluster_health = [],
      etcd_members = [],
      dsn_master = None,
      haproxy_servers = servers,
      pg_hba = [],
      dcs_conf_rest = [],
      haproxy_cfg = [],
      restarted = []\<rparr>"

text \<open>
  Two haproxy tables with two rows \<^verbatim>\<open>UP\<close>: one with three addresses, and one in which
  the address of the first row is also served on a second port by a row that is down.
\<close>

definition example_servers :: "backend list" where
  "example_servers =
     [\<lparr>bk_svname = ''postgresql_192.0.2.1_5432'', bk_status = ''UP''\<rparr>,
      \<lparr>bk_svname = ''postgresql_192.0.2.2_5432'', bk_status = ''DOWN''\<rparr>,
      \<lparr>bk_svname = ''postgresql_192.0.2.3_5432'', bk_status = ''UP''\<rparr>]"

definition example_servers_shared_address :: "backend list" where
  "example_servers_shared_address =
     [\<lparr>bk_svname = ''postgresql_192.0.2.1_5432'', bk_status = ''UP''\<rparr>,
      \<lparr>bk_svname = ''postgresql_192.0.2.1_5433'', bk_status = ''DOWN''\<rparr>,
      \<lparr>bk_svname = ''postgresql_192.0.2.2_5432'', bk_status = ''UP''\<rparr>]"

text \<open>
  The probes of the same cluster with one node's database agent not answering.
\<close>

definition example_db_probe_without ::
  "address \<Rightarrow> nat \<Rightarrow> nat \<Rightarrow> address \<Rightarrow> raw_status option" where
  "example_db_probe_without dead sync_location async_timeline a =
     (if a = dead then None else example_db_probe sync_location async_timeline a)"

text \<open>
  The database node's cluster with one more \<^verbatim>\<open>pg_hba\<close> entry, which admits 192.0.2.3
  in the address-and-netmask form of a \<^verbatim>\<open>pg_hba.conf\<close> line.
\<close>

definition example_netmask_entry :: string where
  "example_netmask_entry = ''hostssl all all 192.0.2.3 255.255.255.255 md5''"

definition example_db_cluster_netmask :: cluster where
  "example_db_cluster_netmask =
     (example_db_cluster example_members)\<lparr>pg_hba := example_netmask_entry # example_pg_hba\<rparr>"

text \<open>
  A resolver for the polls of \<^verbatim>\<open>set_master\<close>: the master is 192.0.2.1 in the first
  nine polls and 192.0.2.2 from the tenth on.
\<close>

definition example_resolve :: "nat \<Rightarrow> error + (address option \<times> address list)" where
  "example_resolve i =
     (if i < 9 then Inr (Some ''192.0.2.1'', [''192.0.2.2'', ''192.0.2.3''])
      else Inr (Some ''192.0.2.2'', [''192.0.2.1'', ''192.0.2.3'']))"

section \<open>Properties\<close>

text \<open>
  C7. When the DB status probe of an address comes back empty, the node that
  \<^verbatim>\<open>_get_node_status\<close> builds is not alive, its state is the value \<^verbatim>\<open>'dead'\<close>
  (the role the specification calls unknown), and its error list starts with
  "Could not retrieve DB status", followed only by the etcd error when the etcd probe is
  empty too.
\<close>

theorem get_node_status_no_db_status:
  assumes "get_raw_node_status db_probe address = None"
  shows "state (get_node_status db_probe etcd_probe address sync_replica master) = ''dead''
       \<and> alive (get_node_status db_probe etcd_probe address sync_replica master) = False
       \<and> errors (get_node_status db_probe etcd_probe address sync_replica master) =
           ''Could not retrieve DB status'' #
             (case get_raw_node_status etcd_probe address of
                None \<Rightarrow> [''Could not retrieve etcd status''] | Some es \<Rightarrow> [])"
  using assms by (simp add: get_node_status_def Let_def split: option.splits)

theorem get_node_status_no_db_status_witness:
  "get_raw_node_status (\<lambda>a. None :: raw_status option) (Some ''192.0.2.1'') = None
   \<and> state (get_node_status (\<lambda>a. None) (\<lambda>a. Some ''StateFollower'')
              (Some ''192.0.2.1'') False False) = ''dead''
   \<and> alive (get_node_status (\<lambda>a. None) (\<lambda>a. Some ''StateFollower'')
              (Some ''192.0.2.1'') False False) = False
   \<and> errors (get_node_status (\<lambda>a. None) (\<lambda>a. Some ''StateFollower'')
              (Some ''192.0.2.1'') False False) = [''Could not retrieve DB status'']"
proof -
  have h: "get_raw_node_status (\<lambda>a. None :: raw_status option) (Some ''192.0.2.1'') = None"
    by (simp add: get_raw_node_status_def)
  show ?thesis
    using h get_node_status_no_db_status [OF h, of "\<lambda>a. Some ''StateFollower''" False False]
    by (simp add: get_raw_node_status_def)
qed

section \<open>Evaluating the example cluster\<close>

lemmas example_defs =
  example_nodes_def example_master_def example_sync_replica_def example_async_replica_def
  example_db_probe_def example_db_probe_without_def example_etcd_probe_def example_raw_def
  get_node_status_def get_raw_node_status_def Let_def empty_raw_def

lemmas eval_defs =
  determine_cluster_status_def status_before_replicas_def
  check_master_found_def check_master_alive_def check_sync_ips_def check_etcd_leaders_def
  check_etcd_followers_def count_etcd_state_def get_sync_replicas_def
  check_replica_def check_sync_replica_def check_async_replica_def check_extra_master_def
  sync_behind_def timeline_differs_def lag_bytes_def lag_excessive_def
  format_2f_mib_def round_half_even_def str_nat.simps digit_char_def
  HEALTHY_def DEGRADED_def DOWN_def

lemma probe_without_simps:
  "example_db_probe_without ''192.0.2.3'' sl tline ''192.0.2.1'' = example_db_probe sl tline ''192.0.2.1''"
  "example_db_probe_without ''192.0.2.3'' sl tline ''192.0.2.2'' = example_db_probe sl tline ''192.0.2.2''"
  "example_db_probe_without ''192.0.2.3'' sl tline ''192.0.2.3'' = None"
  "example_db_probe_without ''192.0.2.2'' sl tline ''192.0.2.1'' = example_db_probe sl tline ''192.0.2.1''"
  "example_db_probe_without ''192.0.2.2'' sl tline ''192.0.2.2'' = None"
  "example_db_probe_without ''192.0.2.2'' sl tline ''192.0.2.3'' = example_db_probe sl tline ''192.0.2.3''"
  by (simp_all add: example_db_probe_without_def)

lemma example_probe_simps:
  "example_db_probe sl tline ''192.0.2.1'' =
     Some (example_raw 8388608 2 [(''192.0.2.2'', ''sync''), (''192.0.2.3'', ''async'')])"
  "example_db_probe sl tline ''192.0.2.2'' = Some (example_raw sl 2 [])"
  "example_db_probe sl tline ''192.0.2.3'' = Some (example_raw 5242880 tline [])"
  "example_etcd_probe ''192.0.2.1'' = Some ''StateLeader''"
  "example_etcd_probe ''192.0.2.2'' = Some ''StateFollower''"
  "example_etcd_probe ''192.0.2.3'' = Some ''StateFollower''"
  by (simp_all add: example_db_probe_def example_etcd_probe_def)

lemmas node_defs = get_node_status_def get_raw_node_status_def Let_def empty_raw_def
  probe_without_simps example_probe_simps

section \<open>The status only rises\<close>

lemma check_sync_replica_bounds:
  assumes "check_sync_replica py mll status replica = Inr (status', replica')"
  shows "status \<le> status' \<and> status' \<le> max status DOWN"
  using assms
  by (auto simp: check_sync_replica_def split: sum.splits if_splits)

lemma check_async_replica_bounds:
  assumes "check_async_replica mll mtl status replica = Inr (status', replica')"
  shows "status \<le> status' \<and> status' \<le> max status DOWN"
  using assms
  by (auto simp: check_async_replica_def DEGRADED_def DOWN_def split: sum.splits if_splits)

lemma check_replica_bounds:
  assumes "check_replica py mll mtl status replica = Inr (status', replica')"
  shows "status \<le> status' \<and> status' \<le> max status DOWN"
  using assms check_sync_replica_bounds check_async_replica_bounds
  by (fastforce simp: check_replica_def split: sum.splits if_splits prod.splits)

lemma replicas_trace_sorted:
  "sorted (status # replicas_trace py mll mtl status replicas)"
proof (induction replicas arbitrary: status)
  case Nil
  then show ?case by simp
next
  case (Cons r rs)
  show ?case
  proof (cases "check_replica py mll mtl status r")
    case (Inl e)
    then show ?thesis by simp
  next
    case (Inr p)
    obtain s' r' where p: "p = (s', r')" by (cases p)
    from Inr p have le: "status \<le> s'" using check_replica_bounds by blast
    have "sorted (s' # replicas_trace py mll mtl s' rs)" by (rule Cons.IH)
    with le Inr p show ?thesis by auto
  qed
qed

lemma replicas_trace_bounded:
  "status \<le> DOWN \<Longrightarrow> \<forall>s \<in> set (replicas_trace py mll mtl status replicas). s \<le> DOWN"
proof (induction replicas arbitrary: status)
  case Nil
  then show ?case by simp
next
  case (Cons r rs)
  show ?case
  proof (cases "check_replica py mll mtl status r")
    case (Inl e)
    then show ?thesis by simp
  next
    case (Inr p)
    obtain s' r' where p: "p = (s', r')" by (cases p)
    from Inr p Cons.prems have le: "s' \<le> DOWN" using check_replica_bounds by fastforce
    from Cons.IH [OF le] le Inr p show ?thesis by simp
  qed
qed

lemma check_replicas_trace:
  assumes "check_replicas py mll mtl status replicas = Inr (status', replicas')"
  shows "length (replicas_trace py mll mtl status replicas) = length replicas
       \<and> last (status # replicas_trace py mll mtl status replicas) = status'
       \<and> length replicas' = length replicas"
  using assms
proof (induction replicas arbitrary: status replicas')
  case Nil
  then show ?case by simp
next
  case (Cons r rs)
  from Cons.prems obtain s1 r1 where step: "check_replica py mll mtl status r = Inr (s1, r1)"
    by (auto split: sum.splits)
  with Cons.prems obtain rs1 where rest: "check_replicas py mll mtl s1 rs = Inr (status', rs1)"
    and out: "replicas' = r1 # rs1"
    by (auto split: sum.splits)
  from Cons.IH [OF rest] step out show ?case by simp
qed

lemma status_before_replicas_bounded: "status_before_replicas master replicas \<le> DOWN"
  by (simp add: status_before_replicas_def Let_def check_master_found_def check_master_alive_def
      check_sync_ips_def check_etcd_leaders_def check_etcd_followers_def HEALTHY_def DEGRADED_def DOWN_def)

lemma pre_checks_inflationary:
  "status \<le> check_master_found master status"
  "status \<le> check_master_alive master status"
  "status \<le> check_sync_ips sync_ips status"
  "status \<le> check_etcd_leaders k status"
  "status \<le> check_etcd_followers f mr n status"
  by (simp_all add: check_master_found_def check_master_alive_def check_sync_ips_def
      check_etcd_leaders_def check_etcd_followers_def)

lemma pre_checks_bounded:
  "status \<le> DOWN \<Longrightarrow> check_master_found master status \<le> DOWN"
  "status \<le> DOWN \<Longrightarrow> check_master_alive master status \<le> DOWN"
  "status \<le> DOWN \<Longrightarrow> check_sync_ips sync_ips status \<le> DOWN"
  "status \<le> DOWN \<Longrightarrow> check_etcd_leaders k status \<le> DOWN"
  "status \<le> DOWN \<Longrightarrow> check_etcd_followers f mr n status \<le> DOWN"
  by (simp_all add: check_master_found_def check_master_alive_def check_sync_ips_def
      check_etcd_leaders_def check_etcd_followers_def DEGRADED_def DOWN_def)

lemma status_trace_Cons:
  "status_trace py (master # replicas) =
     (let nodes = (if node_ip master = None then replicas else master # replicas);
          s1 = check_master_found master HEALTHY;
          s2 = check_master_alive master s1;
          s3 = check_sync_ips (get_sync_replicas (raw_status master)) s2;
          s4 = check_etcd_leaders (count_etcd_state ''StateLeader'' nodes) s3
      in [HEALTHY, s1, s2, s3, s4] @
         (status_before_replicas master replicas #
          replicas_trace py (rs_location (raw_status master)) (rs_timeline (raw_status master))
            (status_before_replicas master replicas) replicas))"
  by (simp add: status_trace_def status_before_replicas_def Let_def)

lemma status_trace_sorted: "sorted (status_trace py db_nodes)"
proof (cases db_nodes)
  case Nil
  then show ?thesis by (simp add: status_trace_def)
next
  case (Cons master replicas)
  let ?sb = "status_before_replicas master replicas"
  let ?tr = "replicas_trace py (rs_location (raw_status master))
               (rs_timeline (raw_status master)) ?sb replicas"
  let ?nodes = "if node_ip master = None then replicas else master # replicas"
  let ?s1 = "check_master_found master HEALTHY"
  let ?s2 = "check_master_alive master ?s1"
  let ?s3 = "check_sync_ips (get_sync_replicas (raw_status master)) ?s2"
  let ?s4 = "check_etcd_leaders (count_etcd_state ''StateLeader'' ?nodes) ?s3"
  have tail: "sorted (?sb # ?tr)" by (rule replicas_trace_sorted)
  have sb: "?sb = check_etcd_followers (count_etcd_state ''StateFollower'' ?nodes)
                    ((1 + length replicas) div 2) (length replicas) ?s4"
    by (simp add: status_before_replicas_def Let_def)
  have c1: "HEALTHY \<le> ?s1" and c2: "?s1 \<le> ?s2" and c3: "?s2 \<le> ?s3" and c4: "?s3 \<le> ?s4"
    by (rule pre_checks_inflationary)+
  have c5: "?s4 \<le> ?sb" unfolding sb by (rule pre_checks_inflationary)
  have above: "\<forall>y \<in> set (?sb # ?tr). ?sb \<le> y" using tail by auto
  have "sorted ([HEALTHY, ?s1, ?s2, ?s3, ?s4] @ (?sb # ?tr))"
    unfolding sorted_append
  proof (intro conjI ballI)
    show "sorted [HEALTHY, ?s1, ?s2, ?s3, ?s4]" using c1 c2 c3 c4 by simp
    show "sorted (?sb # ?tr)" by (rule tail)
  next
    fix x y
    assume x: "x \<in> set [HEALTHY, ?s1, ?s2, ?s3, ?s4]" and y: "y \<in> set (?sb # ?tr)"
    from x c1 c2 c3 c4 c5 have "x \<le> ?sb" by auto
    moreover from y above have "?sb \<le> y" by blast
    ultimately show "x \<le> y" by simp
  qed
  then show ?thesis using Cons by (simp add: status_trace_Cons Let_def)
qed

lemma status_trace_bounded: "\<forall>s \<in> set (status_trace py db_nodes). s \<le> DOWN"
proof (cases db_nodes)
  case Nil
  then show ?thesis by (simp add: status_trace_def)
next
  case (Cons master replicas)
  let ?sb = "status_before_replicas master replicas"
  have h: "HEALTHY \<le> DOWN" by (simp add: HEALTHY_def DOWN_def)
  have "\<forall>s \<in> set (replicas_trace py (rs_location (raw_status master))
               (rs_timeline (raw_status master)) ?sb replicas). s \<le> DOWN"
    by (rule replicas_trace_bounded) (rule status_before_replicas_bounded)
  then show ?thesis
    using Cons h status_before_replicas_bounded [of master replicas]
    by (simp add: status_trace_Cons Let_def pre_checks_bounded)
qed

lemma status_trace_final:
  assumes "determine_cluster_status py db_nodes = Inr (status, nodes)"
  shows "length (status_trace py db_nodes) = 5 + length db_nodes
       \<and> hd (status_trace py db_nodes) = HEALTHY
       \<and> last (status_trace py db_nodes) = status"
proof (cases db_nodes)
  case Nil
  with assms show ?thesis by (simp add: determine_cluster_status_def)
next
  case (Cons master replicas)
  let ?sb = "status_before_replicas master replicas"
  from assms Cons obtain replicas' where
    loop: "check_replicas py (rs_location (raw_status master)) (rs_timeline (raw_status master))
             ?sb replicas = Inr (status, replicas')"
    by (auto simp: determine_cluster_status_def Let_def split: sum.splits)
  from check_replicas_trace [OF loop] Cons show ?thesis
    by (simp add: status_trace_Cons Let_def)
qed

text \<open>
  C1. The statuses one evaluation of \<^verbatim>\<open>_determine_cluster_status\<close> passes through,
  in the order of its checks, never decrease; once one of them is \<^verbatim>\<open>DOWN\<close> every
  later one is; and when the evaluation returns, the trace starts at \<^verbatim>\<open>HEALTHY\<close>, has
  one entry per check before the loop and per replica, and ends in the returned status.
\<close>

theorem determine_cluster_status_monotonic:
  "sorted (status_trace py db_nodes)
   \<and> (\<forall>i j. i \<le> j \<and> j < length (status_trace py db_nodes)
              \<and> status_trace py db_nodes ! i = DOWN
            \<longrightarrow> status_trace py db_nodes ! j = DOWN)
   \<and> (\<forall>status nodes. determine_cluster_status py db_nodes = Inr (status, nodes)
            \<longrightarrow> length (status_trace py db_nodes) = 5 + length db_nodes
              \<and> hd (status_trace py db_nodes) = HEALTHY
              \<and> last (status_trace py db_nodes) = status)"
proof (intro conjI allI impI)
  show "sorted (status_trace py db_nodes)" by (rule status_trace_sorted)
next
  fix i j
  assume a: "i \<le> j \<and> j < length (status_trace py db_nodes)
             \<and> status_trace py db_nodes ! i = DOWN"
  then have "status_trace py db_nodes ! i \<le> status_trace py db_nodes ! j"
    using sorted_nth_mono [OF status_trace_sorted [of py db_nodes], of i j] by blast
  moreover from a have "status_trace py db_nodes ! j \<le> DOWN"
    using status_trace_bounded [of py db_nodes] by simp
  ultimately show "status_trace py db_nodes ! j = DOWN" using a by simp
next
  fix status nodes
  assume "determine_cluster_status py db_nodes = Inr (status, nodes)"
  then show "length (status_trace py db_nodes) = 5 + length db_nodes"
    and "hd (status_trace py db_nodes) = HEALTHY"
    and "last (status_trace py db_nodes) = status"
    using status_trace_final by blast+
qed

theorem determine_cluster_status_monotonic_witness:
  "(case determine_cluster_status Py3 (example_nodes 4194304 1) of
      Inl e \<Rightarrow> None | Inr (status, nodes) \<Rightarrow> Some status) = Some DOWN
   \<and> status_trace Py3 (example_nodes 4194304 1) =
       [HEALTHY, HEALTHY, HEALTHY, HEALTHY, HEALTHY, HEALTHY, DOWN, DOWN]
   \<and> sorted (status_trace Py3 (example_nodes 4194304 1))
   \<and> last (status_trace Py3 (example_nodes 4194304 1)) = DOWN"
proof -
  have tr: "status_trace Py3 (example_nodes 4194304 1) =
       [HEALTHY, HEALTHY, HEALTHY, HEALTHY, HEALTHY, HEALTHY, DOWN, DOWN]"
    by (simp add: example_defs eval_defs status_trace_def)
  have res: "(case determine_cluster_status Py3 (example_nodes 4194304 1) of
      Inl e \<Rightarrow> None | Inr (status, nodes) \<Rightarrow> Some status) = Some DOWN"
    by (simp add: example_defs eval_defs)
  from res obtain nodes where
    ret: "determine_cluster_status Py3 (example_nodes 4194304 1) = Inr (DOWN, nodes)"
    by (auto split: sum.splits)
  from determine_cluster_status_monotonic [of Py3 "example_nodes 4194304 1"] ret
  have "sorted (status_trace Py3 (example_nodes 4194304 1))"
    and "last (status_trace Py3 (example_nodes 4194304 1)) = DOWN"
    by blast+
  with tr res show ?thesis by blast
qed

section \<open>Replicas behind the master\<close>

lemma check_replicas_bounds:
  assumes "check_replicas py mll mtl status replicas = Inr (status', replicas')"
  shows "status \<le> status' \<and> status' \<le> max status DOWN"
  using assms
proof (induction replicas arbitrary: status replicas')
  case Nil
  then show ?case by simp
next
  case (Cons r rs)
  from Cons.prems obtain s1 r1 where step: "check_replica py mll mtl status r = Inr (s1, r1)"
    by (auto split: sum.splits)
  with Cons.prems obtain rs1 where rest: "check_replicas py mll mtl s1 rs = Inr (status', rs1)"
    by (auto split: sum.splits)
  from check_replica_bounds [OF step] Cons.IH [OF rest] show ?case by auto
qed

lemma check_replicas_nth:
  assumes "check_replicas py mll mtl status replicas = Inr (status', replicas')"
    and "i < length replicas"
  shows "\<exists>s s'. status \<le> s \<and> s' \<le> status'
               \<and> check_replica py mll mtl s (replicas ! i) = Inr (s', replicas' ! i)"
  using assms
proof (induction replicas arbitrary: status replicas' i)
  case Nil
  then show ?case by simp
next
  case (Cons r rs)
  from Cons.prems(1) obtain s1 r1 where step: "check_replica py mll mtl status r = Inr (s1, r1)"
    by (auto split: sum.splits)
  with Cons.prems(1) obtain rs1 where rest: "check_replicas py mll mtl s1 rs = Inr (status', rs1)"
    and out: "replicas' = r1 # rs1"
    by (auto split: sum.splits)
  show ?case
  proof (cases i)
    case 0
    from check_replicas_bounds [OF rest] have "s1 \<le> status'" by simp
    with step out 0 show ?thesis by auto
  next
    case (Suc k)
    with Cons.prems(2) have k: "k < length rs" by simp
    from Cons.IH [OF rest k] obtain s s' where
      "s1 \<le> s" "s' \<le> status'" "check_replica py mll mtl s (rs ! k) = Inr (s', rs1 ! k)"
      by blast
    moreover from check_replica_bounds [OF step] have "status \<le> s1" by simp
    ultimately show ?thesis using Suc out by (intro exI [of _ s] exI [of _ s']) simp
  qed
qed

lemma check_extra_master_fields:
  "node_ip (check_extra_master r) = node_ip r"
  "set (errors r) \<subseteq> set (errors (check_extra_master r))"
  by (auto simp: check_extra_master_def)

lemma check_replica_sync_behind:
  assumes "check_replica py (Some m) mtl s r = Inr (s', r')"
    and "state r = ''sync_replica''" and "log_location r = Some l" and "l < m"
  shows "DOWN \<le> s' \<and> ''Out of sync'' \<in> set (errors r') \<and> node_ip r' = node_ip r"
  using assms
  by (auto simp: check_replica_def check_sync_replica_def sync_behind_def check_extra_master_def
      split: if_splits)

lemma determine_cluster_status_Cons:
  assumes "determine_cluster_status py (master # replicas) = Inr (status, nodes)"
  shows "\<exists>replicas'.
           check_replicas py (rs_location (raw_status master)) (rs_timeline (raw_status master))
             (status_before_replicas master replicas) replicas = Inr (status, replicas')
         \<and> nodes = (if node_ip master = None then replicas' else master # replicas')"
  using assms by (auto simp: determine_cluster_status_def Let_def split: sum.splits)

lemma check_replica_returns:
  assumes "log_location r \<noteq> None"
  shows "\<exists>status' r'. check_replica py (Some m) mtl status r = Inr (status', r')"
proof -
  from assms obtain l where l: "log_location r = Some l" by auto
  show ?thesis
  proof (cases "state r = ''sync_replica''")
    case True
    with l show ?thesis
      by (simp add: check_replica_def check_sync_replica_def sync_behind_def)
  next
    case False
    with l show ?thesis
      by (simp add: check_replica_def check_async_replica_def lag_bytes_def split: prod.splits)
  qed
qed

lemma check_replicas_returns:
  assumes "\<forall>r \<in> set replicas. log_location r \<noteq> None"
  shows "\<exists>status' replicas'. check_replicas py (Some m) mtl status replicas = Inr (status', replicas')"
  using assms
proof (induction replicas arbitrary: status)
  case Nil
  show ?case by simp
next
  case (Cons r rs)
  from Cons.prems have "log_location r \<noteq> None" by simp
  from check_replica_returns [OF this, of py m mtl status] obtain s1 r1 where
    step: "check_replica py (Some m) mtl status r = Inr (s1, r1)" by blast
  from Cons.prems have "\<forall>r \<in> set rs. log_location r \<noteq> None" by simp
  from Cons.IH [OF this, of s1] obtain s2 rs2 where
    "check_replicas py (Some m) mtl s1 rs = Inr (s2, rs2)" by blast
  with step show ?case by simp
qed

lemma determine_cluster_status_returns:
  assumes "rs_location (raw_status master) = Some m"
    and "\<forall>r \<in> set replicas. log_location r \<noteq> None"
  shows "\<exists>status nodes. determine_cluster_status py (master # replicas) = Inr (status, nodes)"
proof -
  from check_replicas_returns [OF assms(2), of py m "rs_timeline (raw_status master)"
      "status_before_replicas master replicas"]
  obtain s rs' where
    "check_replicas py (Some m) (rs_timeline (raw_status master))
       (status_before_replicas master replicas) replicas = Inr (s, rs')" by blast
  with assms(1) show ?thesis by (simp add: determine_cluster_status_def Let_def)
qed

text \<open>
  What the code does for a lagging synchronous replica when the evaluation returns: if
  one of the replicas is in state \<^verbatim>\<open>'sync_replica'\<close> with a log location below the
  master's (both present), every evaluation that returns a verdict returns \<^verbatim>\<open>DOWN\<close>,
  and that replica, in the returned node list, has "Out of sync" among its errors. The
  evaluation does return when no replica lacks a log location.
\<close>

theorem sync_replica_behind_is_down:
  assumes "i < length replicas"
    and "state (replicas ! i) = ''sync_replica''"
    and "rs_location (raw_status master) = Some m"
    and "log_location (replicas ! i) = Some l"
    and "l < m"
  shows "(\<forall>status nodes.
            determine_cluster_status py (master # replicas) = Inr (status, nodes) \<longrightarrow>
              status = DOWN
            \<and> (\<exists>replicas'.
                  nodes = (if node_ip master = None then replicas' else master # replicas')
                \<and> length replicas' = length replicas
                \<and> node_ip (replicas' ! i) = node_ip (replicas ! i)
                \<and> ''Out of sync'' \<in> set (errors (replicas' ! i))))
       \<and> ((\<forall>r \<in> set replicas. log_location r \<noteq> None) \<longrightarrow>
            (\<exists>nodes. determine_cluster_status py (master # replicas) = Inr (DOWN, nodes)))"
proof -
  let ?sb = "status_before_replicas master replicas"
  have partial: "status = DOWN
            \<and> (\<exists>replicas'.
                  nodes = (if node_ip master = None then replicas' else master # replicas')
                \<and> length replicas' = length replicas
                \<and> node_ip (replicas' ! i) = node_ip (replicas ! i)
                \<and> ''Out of sync'' \<in> set (errors (replicas' ! i)))"
    if ret: "determine_cluster_status py (master # replicas) = Inr (status, nodes)"
    for status nodes
  proof -
    from determine_cluster_status_Cons [OF ret] assms(3) obtain replicas' where
      loop: "check_replicas py (Some m) (rs_timeline (raw_status master)) ?sb replicas
               = Inr (status, replicas')"
      and nodes: "nodes = (if node_ip master = None then replicas' else master # replicas')"
      by auto
    from check_replicas_nth [OF loop assms(1)] obtain s s' where
      s': "s' \<le> status"
      and step: "check_replica py (Some m) (rs_timeline (raw_status master)) s (replicas ! i)
                   = Inr (s', replicas' ! i)"
      by blast
    from check_replica_sync_behind [OF step assms(2) assms(4) assms(5)] have
      down: "DOWN \<le> s'" and err: "''Out of sync'' \<in> set (errors (replicas' ! i))"
      and ip: "node_ip (replicas' ! i) = node_ip (replicas ! i)"
      by simp_all
    from check_replicas_bounds [OF loop] status_before_replicas_bounded [of master replicas]
    have "status \<le> DOWN" by simp
    with down s' have "status = DOWN" by simp
    moreover from check_replicas_trace [OF loop] have "length replicas' = length replicas"
      by simp
    ultimately show ?thesis using nodes err ip by blast
  qed
  have total: "\<exists>nodes. determine_cluster_status py (master # replicas) = Inr (DOWN, nodes)"
    if "\<forall>r \<in> set replicas. log_location r \<noteq> None"
  proof -
    from determine_cluster_status_returns [OF assms(3) that] obtain status nodes where
      ret: "determine_cluster_status py (master # replicas) = Inr (status, nodes)" by blast
    from partial [OF ret] have "status = DOWN" by simp
    with ret show ?thesis by blast
  qed
  from partial total show ?thesis by blast
qed

theorem sync_replica_behind_is_down_witness:
  "(0::nat) < length [example_sync_replica 4194304 2, example_async_replica 4194304 2]
   \<and> state ([example_sync_replica 4194304 2, example_async_replica 4194304 2] ! 0)
       = ''sync_replica''
   \<and> rs_location (raw_status (example_master 4194304 2)) = Some 8388608
   \<and> log_location ([example_sync_replica 4194304 2, example_async_replica 4194304 2] ! 0)
       = Some 4194304
   \<and> (4194304::nat) < 8388608
   \<and> log_location (example_async_replica 4194304 2) = Some 5242880
   \<and> determine_cluster_status Py3
       (example_master 4194304 2 #
        [example_sync_replica 4194304 2, example_async_replica 4194304 2])
       = Inr (DOWN,
              [example_master 4194304 2,
               (example_sync_replica 4194304 2)\<lparr>errors := [''Out of sync'']\<rparr>,
               (example_async_replica 4194304 2)\<lparr>errors := [''Lag: 3.00MiB'']\<rparr>])"
proof -
  let ?replicas = "[example_sync_replica 4194304 2, example_async_replica 4194304 2]"
  let ?nodes = "[example_master 4194304 2,
             (example_sync_replica 4194304 2)\<lparr>errors := [''Out of sync'']\<rparr>,
             (example_async_replica 4194304 2)\<lparr>errors := [''Lag: 3.00MiB'']\<rparr>]"
  have h1: "(0::nat) < length ?replicas" by simp
  have h2: "state (?replicas ! 0) = ''sync_replica''" by (simp add: example_defs)
  have h3: "rs_location (raw_status (example_master 4194304 2)) = Some 8388608"
    by (simp add: example_defs)
  have h4: "log_location (?replicas ! 0) = Some 4194304" by (simp add: example_defs)
  have h5: "(4194304::nat) < 8388608" by simp
  have h6: "\<forall>r \<in> set ?replicas. log_location r \<noteq> None" by (simp add: example_defs)
  from sync_replica_behind_is_down [OF h1 h2 h3 h4 h5, of Py3] h6 obtain nodes where
    ret: "determine_cluster_status Py3 (example_master 4194304 2 # ?replicas) = Inr (DOWN, nodes)"
    by blast
  have "determine_cluster_status Py3 (example_master 4194304 2 # ?replicas)
          = Inr (DOWN, ?nodes)"
    by (simp add: example_defs eval_defs)
  moreover have "log_location (example_async_replica 4194304 2) = Some 5242880"
    by (simp add: example_defs)
  ultimately show ?thesis using h1 h2 h3 h4 h5 by (intro conjI)
qed

lemma dead_async_master:
  "get_node_status (example_db_probe_without ''192.0.2.3'' 4194304 2)
     example_etcd_probe (Some ''192.0.2.1'') False True =
   \<lparr>node_ip = Some ''192.0.2.1'', alive = True, errors = [],
     raw_status = example_raw 8388608 2 [(''192.0.2.2'', ''sync''), (''192.0.2.3'', ''async'')],
     log_location = Some 8388608, state = ''leader'', timeline = Some 2,
     etcd_state = ''StateLeader''\<rparr>"
  by (simp add: node_defs example_raw_def)

lemma dead_async_sync_replica:
  "get_node_status (example_db_probe_without ''192.0.2.3'' 4194304 2)
     example_etcd_probe (Some ''192.0.2.2'') True False =
   \<lparr>node_ip = Some ''192.0.2.2'', alive = True, errors = [],
     raw_status = example_raw 4194304 2 [],
     log_location = Some 4194304, state = ''sync_replica'', timeline = Some 2,
     etcd_state = ''StateFollower''\<rparr>"
  by (simp add: node_defs example_raw_def)

lemma dead_async_node:
  "get_node_status (example_db_probe_without ''192.0.2.3'' 4194304 2)
     example_etcd_probe (Some ''192.0.2.3'') False False =
   \<lparr>node_ip = Some ''192.0.2.3'', alive = False, errors = [''Could not retrieve DB status''],
     raw_status = empty_raw,
     log_location = None, state = ''dead'', timeline = None,
     etcd_state = ''StateFollower''\<rparr>"
  by (simp add: node_defs)


text \<open>
  C5. The verdict \<^verbatim>\<open>DOWN\<close> for a synchronous replica behind the master is not
  given for every evaluation. Here the master is at 8 MiB and its synchronous replica
  192.0.2.2 has replayed up to 4 MiB (both present), and the database agent of 192.0.2.3
  does not answer, so that node has no log location: \<^verbatim>\<open>get_cluster_status\<close> raises
  \<^verbatim>\<open>TypeError\<close> at the subtraction
  \<^verbatim>\<open>master_log_location - replica.get('log_location')\<close> for the dead node, under
  either interpreter, and returns neither a verdict nor the replica's error list.
\<close>

theorem sync_replica_behind_dead_replica_raises:
  "state (get_node_status (example_db_probe_without ''192.0.2.3'' 4194304 2)
            example_etcd_probe (Some ''192.0.2.2'') True False) = ''sync_replica''
   \<and> log_location (get_node_status (example_db_probe_without ''192.0.2.3'' 4194304 2)
            example_etcd_probe (Some ''192.0.2.2'') True False) = Some 4194304
   \<and> rs_location (raw_status (get_node_status (example_db_probe_without ''192.0.2.3'' 4194304 2)
            example_etcd_probe (Some ''192.0.2.1'') False True)) = Some 8388608
   \<and> (4194304::nat) < 8388608
   \<and> state (get_node_status (example_db_probe_without ''192.0.2.3'' 4194304 2)
            example_etcd_probe (Some ''192.0.2.3'') False False) = ''dead''
   \<and> log_location (get_node_status (example_db_probe_without ''192.0.2.3'' 4194304 2)
            example_etcd_probe (Some ''192.0.2.3'') False False) = None
   \<and> get_cluster_status Py2 (example_db_probe_without ''192.0.2.3'' 4194304 2)
         example_etcd_probe (Some ''192.0.2.1'') [''192.0.2.2'', ''192.0.2.3'']
       = Inl TypeError
   \<and> get_cluster_status Py3 (example_db_probe_without ''192.0.2.3'' 4194304 2)
         example_etcd_probe (Some ''192.0.2.1'') [''192.0.2.2'', ''192.0.2.3'']
       = Inl TypeError"
proof -
  have sync_ips: "get_sync_replicas
      (example_raw 8388608 2 [(''192.0.2.2'', ''sync''), (''192.0.2.3'', ''async'')])
      = [''192.0.2.2'']"
    by (simp add: get_sync_replicas_def example_raw_def)
  have run: "get_cluster_status py (example_db_probe_without ''192.0.2.3'' 4194304 2)
         example_etcd_probe (Some ''192.0.2.1'') [''192.0.2.2'', ''192.0.2.3'']
       = Inl TypeError" for py
    unfolding get_cluster_status_def Let_def dead_async_master
    by (cases py) (simp_all add: sync_ips dead_async_sync_replica dead_async_node eval_defs example_raw_def empty_raw_def)
  show ?thesis
    unfolding dead_async_master dead_async_sync_replica dead_async_node run
    by (simp add: example_raw_def)
qed

section \<open>The lag diagnostic\<close>

lemma format_2f_mib_3: "format_2f_mib 3145728 = ''3.00''"
  by (simp add: format_2f_mib_def round_half_even_def str_nat.simps digit_char_def)

text \<open>
  What the loop body does for an asynchronous replica on the master's timeline whose log
  location is exactly 3 MiB (3145728 bytes) below the master's: it returns the status it
  was given (what the earlier checks set), and the replica's error list gains
  "Lag: 3.00MiB", a string that contains "3.00MiB".
\<close>

theorem async_replica_lag_3mib:
  assumes "state replica = ''async_replica''"
    and "timeline replica = master_timeline"
    and "master_log_location = Some m"
    and "log_location replica = Some l"
    and "int m - int l = 3145728"
  shows "check_replica py master_log_location master_timeline status replica =
           Inr (status, check_extra_master (replica\<lparr>errors := errors replica @ [''Lag: 3.00MiB'']\<rparr>))
       \<and> ''Lag: 3.00MiB'' \<in>
           set (errors (check_extra_master (replica\<lparr>errors := errors replica @ [''Lag: 3.00MiB'']\<rparr>)))
       \<and> sublist ''3.00MiB'' ''Lag: 3.00MiB''"
proof -
  have nd: "\<not> timeline_differs master_timeline (timeline replica)"
    using assms(2) by (simp add: timeline_differs_def split: option.splits)
  have lag: "lag_bytes master_log_location (log_location replica) = Inr 3145728"
    using assms(3,4,5) by (simp add: lag_bytes_def)
  have ex: "lag_excessive 3145728" by (simp add: lag_excessive_def)
  have step: "check_replica py master_log_location master_timeline status replica =
           Inr (status, check_extra_master (replica\<lparr>errors := errors replica @ [''Lag: 3.00MiB'']\<rparr>))"
    using assms(1) nd lag ex by (simp add: check_replica_def check_async_replica_def format_2f_mib_3)
  have mem: "''Lag: 3.00MiB'' \<in>
           set (errors (check_extra_master (replica\<lparr>errors := errors replica @ [''Lag: 3.00MiB'']\<rparr>)))"
    by (simp add: check_extra_master_def)
  have sub: "sublist ''3.00MiB'' ''Lag: 3.00MiB''"
    by (simp add: sublist_Cons_right)
  from step mem sub show ?thesis by blast
qed

theorem async_replica_lag_3mib_witness:
  "state (example_async_replica 8388608 2) = ''async_replica''
   \<and> timeline (example_async_replica 8388608 2) = Some 2
   \<and> log_location (example_async_replica 8388608 2) = Some 5242880
   \<and> int 8388608 - int 5242880 = 3145728
   \<and> check_replica Py3 (Some 8388608) (Some 2) DEGRADED (example_async_replica 8388608 2) =
       Inr (DEGRADED, (example_async_replica 8388608 2)\<lparr>errors := [''Lag: 3.00MiB'']\<rparr>)"
proof -
  have h1: "state (example_async_replica 8388608 2) = ''async_replica''"
    by (simp add: example_defs)
  have h2: "timeline (example_async_replica 8388608 2) = Some 2"
    by (simp add: example_defs)
  have h3: "Some (8388608::nat) = Some 8388608" by simp
  have h4: "log_location (example_async_replica 8388608 2) = Some 5242880"
    by (simp add: example_defs)
  have h5: "int 8388608 - int 5242880 = 3145728" by simp
  from async_replica_lag_3mib [OF h1 h2 h3 h4 h5, of Py3 DEGRADED]
  have "check_replica Py3 (Some 8388608) (Some 2) DEGRADED (example_async_replica 8388608 2) =
       Inr (DEGRADED, (example_async_replica 8388608 2)\<lparr>errors := [''Lag: 3.00MiB'']\<rparr>)"
    by (simp add: example_defs check_extra_master_def)
  with h1 h2 h4 h5 show ?thesis by blast
qed


text \<open>
  In an evaluation that returns, that replica carries the diagnostic in the returned node
  list, and its iteration of the loop leaves the status as it found it.
\<close>

lemma async_replica_lag_3mib_evaluation:
  assumes "determine_cluster_status py (master # replicas) = Inr (status, nodes)"
    and "i < length replicas"
    and "state (replicas ! i) = ''async_replica''"
    and "timeline (replicas ! i) = rs_timeline (raw_status master)"
    and "rs_location (raw_status master) = Some m"
    and "log_location (replicas ! i) = Some l"
    and "int m - int l = 3145728"
  shows "\<exists>replicas'.
           nodes = (if node_ip master = None then replicas' else master # replicas')
         \<and> length replicas' = length replicas
         \<and> replicas' ! i =
             check_extra_master ((replicas ! i)\<lparr>errors := errors (replicas ! i) @ [''Lag: 3.00MiB'']\<rparr>)
         \<and> ''Lag: 3.00MiB'' \<in> set (errors (replicas' ! i))"
proof -
  from determine_cluster_status_Cons [OF assms(1)] obtain replicas' where
    loop: "check_replicas py (rs_location (raw_status master)) (rs_timeline (raw_status master))
             (status_before_replicas master replicas) replicas = Inr (status, replicas')"
    and nodes: "nodes = (if node_ip master = None then replicas' else master # replicas')"
    by blast
  from check_replicas_nth [OF loop assms(2)] obtain s s' where
    step: "check_replica py (rs_location (raw_status master)) (rs_timeline (raw_status master))
             s (replicas ! i) = Inr (s', replicas' ! i)"
    by blast
  from async_replica_lag_3mib [OF assms(3) assms(4) assms(5) assms(6) assms(7), of py s] step
  have at_i: "replicas' ! i =
      check_extra_master ((replicas ! i)\<lparr>errors := errors (replicas ! i) @ [''Lag: 3.00MiB'']\<rparr>)"
    by simp
  then have mem: "''Lag: 3.00MiB'' \<in> set (errors (replicas' ! i))"
    by (simp add: check_extra_master_def)
  from check_replicas_trace [OF loop] have len: "length replicas' = length replicas" by simp
  from nodes len at_i mem show ?thesis by blast
qed

lemma dead_sync_master:
  "get_node_status (example_db_probe_without ''192.0.2.2'' 8388608 2)
     example_etcd_probe (Some ''192.0.2.1'') False True =
   \<lparr>node_ip = Some ''192.0.2.1'', alive = True, errors = [],
     raw_status = example_raw 8388608 2 [(''192.0.2.2'', ''sync''), (''192.0.2.3'', ''async'')],
     log_location = Some 8388608, state = ''leader'', timeline = Some 2,
     etcd_state = ''StateLeader''\<rparr>"
  by (simp add: node_defs example_raw_def)

lemma dead_sync_node:
  "get_node_status (example_db_probe_without ''192.0.2.2'' 8388608 2)
     example_etcd_probe (Some ''192.0.2.2'') True False =
   \<lparr>node_ip = Some ''192.0.2.2'', alive = False, errors = [''Could not retrieve DB status''],
     raw_status = empty_raw,
     log_location = None, state = ''dead'', timeline = None,
     etcd_state = ''StateFollower''\<rparr>"
  by (simp add: node_defs)

lemma dead_sync_async_replica:
  "get_node_status (example_db_probe_without ''192.0.2.2'' 8388608 2)
     example_etcd_probe (Some ''192.0.2.3'') False False =
   \<lparr>node_ip = Some ''192.0.2.3'', alive = True, errors = [],
     raw_status = example_raw 5242880 2 [],
     log_location = Some 5242880, state = ''async_replica'', timeline = Some 2,
     etcd_state = ''StateFollower''\<rparr>"
  by (simp add: node_defs example_raw_def)

text \<open>
  C6. The lag diagnostic is not given for every evaluation. Here the master is at 8 MiB on
  timeline 2 and the asynchronous replica 192.0.2.3 is on timeline 2 at 5 MiB, a lag of
  exactly 3 MiB, and the database agent of 192.0.2.2, which comes first in the replica
  list, does not answer: \<^verbatim>\<open>get_cluster_status\<close> raises \<^verbatim>\<open>TypeError\<close> at the
  subtraction for the dead node, under either interpreter, before the loop reaches
  192.0.2.3, and no node list with a lag diagnostic is returned.
\<close>

theorem async_replica_lag_dead_replica_raises:
  "state (get_node_status (example_db_probe_without ''192.0.2.2'' 8388608 2)
            example_etcd_probe (Some ''192.0.2.3'') False False) = ''async_replica''
   \<and> timeline (get_node_status (example_db_probe_without ''192.0.2.2'' 8388608 2)
            example_etcd_probe (Some ''192.0.2.3'') False False) = Some 2
   \<and> log_location (get_node_status (example_db_probe_without ''192.0.2.2'' 8388608 2)
            example_etcd_probe (Some ''192.0.2.3'') False False) = Some 5242880
   \<and> rs_timeline (raw_status (get_node_status (example_db_probe_without ''192.0.2.2'' 8388608 2)
            example_etcd_probe (Some ''192.0.2.1'') False True)) = Some 2
   \<and> rs_location (raw_status (get_node_status (example_db_probe_without ''192.0.2.2'' 8388608 2)
            example_etcd_probe (Some ''192.0.2.1'') False True)) = Some 8388608
   \<and> int 8388608 - int 5242880 = 3145728
   \<and> state (get_node_status (example_db_probe_without ''192.0.2.2'' 8388608 2)
            example_etcd_probe (Some ''192.0.2.2'') True False) = ''dead''
   \<and> log_location (get_node_status (example_db_probe_without ''192.0.2.2'' 8388608 2)
            example_etcd_probe (Some ''192.0.2.2'') True False) = None
   \<and> get_cluster_status Py2 (example_db_probe_without ''192.0.2.2'' 8388608 2)
         example_etcd_probe (Some ''192.0.2.1'') [''192.0.2.2'', ''192.0.2.3'']
       = Inl TypeError
   \<and> get_cluster_status Py3 (example_db_probe_without ''192.0.2.2'' 8388608 2)
         example_etcd_probe (Some ''192.0.2.1'') [''192.0.2.2'', ''192.0.2.3'']
       = Inl TypeError"
proof -
  have sync_ips: "get_sync_replicas
      (example_raw 8388608 2 [(''192.0.2.2'', ''sync''), (''192.0.2.3'', ''async'')])
      = [''192.0.2.2'']"
    by (simp add: get_sync_replicas_def example_raw_def)
  have run: "get_cluster_status py (example_db_probe_without ''192.0.2.2'' 8388608 2)
         example_etcd_probe (Some ''192.0.2.1'') [''192.0.2.2'', ''192.0.2.3'']
       = Inl TypeError" for py
    unfolding get_cluster_status_def Let_def dead_sync_master
    by (cases py)
       (simp_all add: sync_ips dead_sync_node dead_sync_async_replica eval_defs
          example_raw_def empty_raw_def)
  show ?thesis
    unfolding dead_sync_master dead_sync_node dead_sync_async_replica run
    by (simp add: example_raw_def)
qed

section \<open>The healthy verdict\<close>

lemma check_replica_unchanged:
  assumes "state r = ''sync_replica'' \<longrightarrow>
             (\<exists>l. log_location r = Some l \<and> (\<forall>m. mll = Some m \<longrightarrow> m \<le> l))"
    and "state r \<noteq> ''sync_replica'' \<longrightarrow>
             timeline r = mtl \<and> log_location r \<noteq> None \<and> mll \<noteq> None"
  shows "\<exists>r'. check_replica py mll mtl status r = Inr (status, r')"
proof (cases "state r = ''sync_replica''")
  case True
  with assms(1) obtain l where l: "log_location r = Some l" "\<forall>m. mll = Some m \<longrightarrow> m \<le> l"
    by blast
  then have "sync_behind py mll (log_location r) = Inr False"
    by (auto simp: sync_behind_def split: option.splits)
  with True show ?thesis by (simp add: check_replica_def check_sync_replica_def)
next
  case False
  with assms(2) obtain l m where "timeline r = mtl" "log_location r = Some l" "mll = Some m"
    by auto
  then have "\<not> timeline_differs mtl (timeline r)"
    and "lag_bytes mll (log_location r) = Inr (int m - int l)"
    by (auto simp: timeline_differs_def lag_bytes_def split: option.splits)
  with False show ?thesis by (simp add: check_replica_def check_async_replica_def)
qed

lemma check_replicas_unchanged:
  assumes "\<forall>r \<in> set replicas. state r = ''sync_replica'' \<longrightarrow>
             (\<exists>l. log_location r = Some l \<and> (\<forall>m. mll = Some m \<longrightarrow> m \<le> l))"
    and "\<forall>r \<in> set replicas. state r \<noteq> ''sync_replica'' \<longrightarrow>
             timeline r = mtl \<and> log_location r \<noteq> None \<and> mll \<noteq> None"
  shows "\<exists>replicas'. check_replicas py mll mtl status replicas = Inr (status, replicas')"
  using assms
proof (induction replicas)
  case Nil
  then show ?case by simp
next
  case (Cons r rs)
  from Cons.prems have "\<exists>r'. check_replica py mll mtl status r = Inr (status, r')"
    by (intro check_replica_unchanged) simp_all
  then obtain r' where step: "check_replica py mll mtl status r = Inr (status, r')" ..
  have "\<exists>rs'. check_replicas py mll mtl status rs = Inr (status, rs')"
    using Cons.prems by (intro Cons.IH) simp_all
  then obtain rs' where "check_replicas py mll mtl status rs = Inr (status, rs')" ..
  with step show ?case by simp
qed

lemma status_before_replicas_healthy:
  assumes "node_ip master \<noteq> None" and "alive master"
    and "get_sync_replicas (raw_status master) \<noteq> []"
    and "count_etcd_state ''StateLeader'' (master # replicas) = 1"
    and "(1 + length replicas) div 2 \<le> count_etcd_state ''StateFollower'' (master # replicas)"
    and "length replicas \<le> count_etcd_state ''StateFollower'' (master # replicas)"
  shows "status_before_replicas master replicas = HEALTHY"
proof -
  from assms(1) have nm: "(node_ip master = None) = False" by simp
  show ?thesis
    using assms(2-6) unfolding status_before_replicas_def Let_def nm
    by (simp add: check_master_found_def check_master_alive_def check_sync_ips_def
        check_etcd_leaders_def check_etcd_followers_def nm)
qed

text \<open>
  C4, as the code has it. When the master is resolved and alive, reports at least one
  synchronous replica, the etcd states show exactly one leader and at least as many
  followers as the majority requirement and as there are replicas, every replica in state
  \<^verbatim>\<open>'sync_replica'\<close> has a log location not below the master's, and every other
  replica is on the master's timeline with its own and the master's log location present,
  the evaluation returns \<^verbatim>\<open>HEALTHY\<close>.
\<close>

theorem healthy_verdict:
  assumes "node_ip master \<noteq> None" and "alive master"
    and "get_sync_replicas (raw_status master) \<noteq> []"
    and "count_etcd_state ''StateLeader'' (master # replicas) = 1"
    and "(1 + length replicas) div 2 \<le> count_etcd_state ''StateFollower'' (master # replicas)"
    and "length replicas \<le> count_etcd_state ''StateFollower'' (master # replicas)"
    and "\<forall>r \<in> set replicas. state r = ''sync_replica'' \<longrightarrow>
           (\<exists>l. log_location r = Some l
              \<and> (\<forall>m. rs_location (raw_status master) = Some m \<longrightarrow> m \<le> l))"
    and "\<forall>r \<in> set replicas. state r \<noteq> ''sync_replica'' \<longrightarrow>
           timeline r = rs_timeline (raw_status master)
           \<and> log_location r \<noteq> None \<and> rs_location (raw_status master) \<noteq> None"
  shows "\<exists>replicas'. determine_cluster_status py (master # replicas)
                        = Inr (HEALTHY, master # replicas')"
proof -
  have sb: "status_before_replicas master replicas = HEALTHY"
    by (rule status_before_replicas_healthy) (rule assms)+
  from check_replicas_unchanged [OF assms(7) assms(8)] obtain replicas' where
    "check_replicas py (rs_location (raw_status master)) (rs_timeline (raw_status master))
       HEALTHY replicas = Inr (HEALTHY, replicas')" by blast
  moreover from assms(1) obtain a where "node_ip master = Some a" by auto
  ultimately show ?thesis
    using sb by (simp add: determine_cluster_status_def Let_def)
qed

theorem healthy_verdict_witness:
  "node_ip (example_master 8388608 2) \<noteq> None
   \<and> alive (example_master 8388608 2)
   \<and> get_sync_replicas (raw_status (example_master 8388608 2)) \<noteq> []
   \<and> determine_cluster_status Py3
         (example_master 8388608 2 #
          [example_sync_replica 8388608 2, example_async_replica 8388608 2])
       = Inr (HEALTHY,
              [example_master 8388608 2, example_sync_replica 8388608 2,
               (example_async_replica 8388608 2)\<lparr>errors := [''Lag: 3.00MiB'']\<rparr>])"
proof -
  let ?master = "example_master 8388608 2"
  let ?replicas = "[example_sync_replica 8388608 2, example_async_replica 8388608 2]"
  have h1: "node_ip ?master \<noteq> None" by (simp add: example_defs)
  have h2: "alive ?master" by (simp add: example_defs)
  have h3: "get_sync_replicas (raw_status ?master) \<noteq> []"
    by (simp add: example_defs get_sync_replicas_def)
  have h4: "count_etcd_state ''StateLeader'' (?master # ?replicas) = 1"
    by (simp add: example_defs count_etcd_state_def)
  have h5: "(1 + length ?replicas) div 2 \<le> count_etcd_state ''StateFollower'' (?master # ?replicas)"
    by (simp add: example_defs count_etcd_state_def)
  have h6: "length ?replicas \<le> count_etcd_state ''StateFollower'' (?master # ?replicas)"
    by (simp add: example_defs count_etcd_state_def)
  have h7: "\<forall>r \<in> set ?replicas. state r = ''sync_replica'' \<longrightarrow>
           (\<exists>l. log_location r = Some l
              \<and> (\<forall>m. rs_location (raw_status ?master) = Some m \<longrightarrow> m \<le> l))"
    by (simp add: example_defs)
  have h8: "\<forall>r \<in> set ?replicas. state r \<noteq> ''sync_replica'' \<longrightarrow>
           timeline r = rs_timeline (raw_status ?master)
           \<and> log_location r \<noteq> None \<and> rs_location (raw_status ?master) \<noteq> None"
    by (simp add: example_defs)
  from healthy_verdict [OF h1 h2 h3 h4 h5 h6 h7 h8, of Py3] obtain replicas' where
    "determine_cluster_status Py3 (?master # ?replicas) = Inr (HEALTHY, ?master # replicas')"
    by blast
  moreover have "determine_cluster_status Py3 (?master # ?replicas)
       = Inr (HEALTHY,
              [?master, example_sync_replica 8388608 2,
               (example_async_replica 8388608 2)\<lparr>errors := [''Lag: 3.00MiB'']\<rparr>])"
    by (simp add: example_defs eval_defs)
  ultimately show ?thesis using h1 h2 h3 by blast
qed

text \<open>
  The claim as the specification states it fails: with the master alive, its one
  synchronous replica reported and in sync, one etcd leader and two followers (the majority
  requirement is 1, the replicas are 2), an asynchronous replica on another timeline makes
  the verdict \<^verbatim>\<open>DEGRADED\<close>.
\<close>

theorem healthy_verdict_counterexample:
  "node_ip (example_master 8388608 1) = Some ''192.0.2.1''
   \<and> alive (example_master 8388608 1)
   \<and> get_sync_replicas (raw_status (example_master 8388608 1)) = [''192.0.2.2'']
   \<and> node_ip (example_sync_replica 8388608 1) = Some ''192.0.2.2''
   \<and> state (example_sync_replica 8388608 1) = ''sync_replica''
   \<and> log_location (example_sync_replica 8388608 1) = Some 8388608
   \<and> rs_location (raw_status (example_master 8388608 1)) = Some 8388608
   \<and> count_etcd_state ''StateLeader'' (example_nodes 8388608 1) = 1
   \<and> count_etcd_state ''StateFollower'' (example_nodes 8388608 1) = 2
   \<and> length (example_nodes 8388608 1) div 2 = 1
   \<and> determine_cluster_status Py2 (example_nodes 8388608 1)
       = Inr (DEGRADED,
              [example_master 8388608 1, example_sync_replica 8388608 1,
               (example_async_replica 8388608 1)
                 \<lparr>errors := [''Out of sync'', ''Lag: 3.00MiB'']\<rparr>])
   \<and> determine_cluster_status Py3 (example_nodes 8388608 1)
       = determine_cluster_status Py2 (example_nodes 8388608 1)
   \<and> DEGRADED \<noteq> HEALTHY"
  by (simp add: example_defs eval_defs)

section \<open>Evaluation without a master\<close>

lemma no_master_raises:
  assumes "rs_location (raw_status master) = None"
    and "replicas \<noteq> []" and "\<forall>r \<in> set replicas. state r \<noteq> ''sync_replica''"
  shows "determine_cluster_status py (master # replicas) = Inl TypeError"
proof -
  from assms(2) obtain r rs where rs: "replicas = r # rs" by (cases replicas) auto
  with assms(3) have "state r \<noteq> ''sync_replica''" by simp
  then have "check_replica py None mtl status r = Inl TypeError" for mtl status
    by (simp add: check_replica_def check_async_replica_def lag_bytes_def split: prod.splits)
  with rs assms(1) show ?thesis
    by (simp add: determine_cluster_status_def Let_def)
qed

lemma get_cluster_status_no_master:
  assumes "replica_addresses \<noteq> []"
  shows "get_cluster_status py db_probe etcd_probe None replica_addresses = Inl TypeError"
proof -
  let ?master = "get_node_status db_probe etcd_probe None False True"
  have raw: "raw_status ?master = empty_raw"
    by (simp add: get_node_status_def get_raw_node_status_def Let_def split: option.splits)
  then have loc: "rs_location (raw_status ?master) = None"
    and sync: "get_sync_replicas (raw_status ?master) = []"
    by (simp_all add: empty_raw_def get_sync_replicas_def)
  have st: "state (get_node_status db_probe etcd_probe (Some a) False False) \<noteq> ''sync_replica''" for a
    by (simp add: get_node_status_def get_raw_node_status_def Let_def split: option.splits)
  show ?thesis
    unfolding get_cluster_status_def Let_def
    by (rule no_master_raises) (use assms loc sync st in auto)
qed

lemma no_master_replicas_are_all_members:
  assumes "db_service c" and "dsn_master c = None"
    and "\<not> sublist ''cluster is unavailable'' (etcd_cluster_health c)"
    and "\<not> sublist ''failed to list members'' (etcd_cluster_health c)"
  shows "get_cluster_addresses c = Inr (None, map fst (etcd_members c))"
  using assms by (simp add: get_cluster_addresses_def Let_def)

text \<open>
  C3. With no master resolved and every member of the example cluster running and
  handed to the evaluation as a replica, \<^verbatim>\<open>get_cluster_status\<close> does not return: the
  subtraction \<^verbatim>\<open>master_log_location - replica.get('log_location')\<close> raises
  \<^verbatim>\<open>TypeError\<close> on the first replica, under either interpreter.
\<close>

theorem get_cluster_status_no_master_raises:
  "get_cluster_status Py2 (example_db_probe 8388608 2) example_etcd_probe None
     [''192.0.2.1'', ''192.0.2.2'', ''192.0.2.3''] = Inl TypeError
   \<and> get_cluster_status Py3 (example_db_probe 8388608 2) example_etcd_probe None
     [''192.0.2.1'', ''192.0.2.2'', ''192.0.2.3''] = Inl TypeError"
  by (simp add: get_cluster_status_def example_defs eval_defs)

section \<open>Removing the master\<close>

lemmas topology_defs =
  get_cluster_addresses_def example_db_cluster_def example_members_def
  example_manager_cluster_def Let_def sublist_Cons_right

text \<open>
  C2, as the code has it. With the master's address, \<^verbatim>\<open>remove_cluster_node\<close> always
  fails: with the error for the last replica when fewer than two replicas are resolved,
  and with the error for the master otherwise.
\<close>

theorem remove_master_rejected:
  assumes "get_cluster_addresses c = Inr (Some address, replicas)"
  shows "remove_cluster_node c address =
           Inl (DBManagementError
                  (if length replicas < 2 then LAST_REPLICA else MASTER_NOT_REMOVABLE))"
  using assms by (simp add: remove_cluster_node_def)

theorem remove_master_rejected_witness:
  "get_cluster_addresses (example_db_cluster example_members)
     = Inr (Some ''192.0.2.1'', [''192.0.2.2'', ''192.0.2.3''])
   \<and> remove_cluster_node (example_db_cluster example_members) ''192.0.2.1''
     = Inl (DBManagementError MASTER_NOT_REMOVABLE)"
proof -
  have h: "get_cluster_addresses (example_db_cluster example_members)
     = Inr (Some ''192.0.2.1'', [''192.0.2.2'', ''192.0.2.3''])"
    by (simp add: topology_defs)
  from remove_master_rejected [OF h] h show ?thesis by simp
qed

text \<open>
  The claim as the specification states it fails: with one replica left, removing the
  master is refused with the error for the last replica, not the one for the master.
\<close>

theorem remove_master_counterexample:
  "get_cluster_addresses (example_db_cluster (take 2 example_members))
     = Inr (Some ''192.0.2.1'', [''192.0.2.2''])
   \<and> remove_cluster_node (example_db_cluster (take 2 example_members)) ''192.0.2.1''
     = Inl (DBManagementError LAST_REPLICA)
   \<and> LAST_REPLICA \<noteq> MASTER_NOT_REMOVABLE"
  by (simp add: remove_cluster_node_def topology_defs LAST_REPLICA_def MASTER_NOT_REMOVABLE_def)

section \<open>The access-control list after a removal\<close>

lemma added_entries_excluded:
  "sublist (exclusion_string address) (''hostssl all postgres '' @ address @ ''/32 md5'')"
  "sublist (exclusion_string address) (''hostssl replication replicator '' @ address @ ''/32 md5'')"
  unfolding sublist_def exclusion_string_def
  by (rule exI [of _ "''hostssl all postgres''"], rule exI [of _ "''md5''"], simp)
     (rule exI [of _ "''hostssl replication replicator''"], rule exI [of _ "''md5''"], simp)

lemma remove_undoes_add:
  "filter (\<lambda>entry. \<not> sublist (exclusion_string address) entry)
     (add_node_to_pg_hba entries address)
   = filter (\<lambda>entry. \<not> sublist (exclusion_string address) entry) entries"
  using added_entries_excluded [of address] by (simp add: add_node_to_pg_hba_def)



lemma remove_cluster_node_filters:
  assumes "db_service c" and "remove_cluster_node c address = Inr c'"
  shows "pg_hba c' = filter (\<lambda>entry. \<not> sublist (exclusion_string address) entry) (pg_hba c)"
    and "dcs_conf_rest c' = dcs_conf_rest c"
  using assms
  by (auto simp: remove_cluster_node_def etcd_member_remove_def Let_def
      split: sum.splits prod.splits if_splits option.splits)

text \<open>
  C8, as the code has it. After \<^verbatim>\<open>remove_cluster_node\<close> has succeeded on a database
  node, the \<^verbatim>\<open>pg_hba\<close> list stored in etcd is the old list, in the old order, without
  the entries that contain the address in the form \<^verbatim>\<open>' address/32 '\<close> (a space, the
  address, \<^verbatim>\<open>/32\<close>, a space). No entry left contains that text; the two entries that
  \<^verbatim>\<open>_add_node_to_pg_hba\<close> writes for the address are gone; every other entry is kept
  as it was; and the rest of the stored configuration is unchanged.
\<close>

theorem remove_cluster_node_pg_hba:
  assumes "db_service c" and "remove_cluster_node c address = Inr c'"
  shows "pg_hba c' = filter (\<lambda>entry. \<not> sublist ('' '' @ address @ ''/32 '') entry) (pg_hba c)
       \<and> (\<forall>entry \<in> set (pg_hba c'). \<not> sublist ('' '' @ address @ ''/32 '') entry)
       \<and> ''hostssl all postgres '' @ address @ ''/32 md5'' \<notin> set (pg_hba c')
       \<and> ''hostssl replication replicator '' @ address @ ''/32 md5'' \<notin> set (pg_hba c')
       \<and> (\<forall>entry \<in> set (pg_hba c).
             \<not> sublist ('' '' @ address @ ''/32 '') entry \<longrightarrow> entry \<in> set (pg_hba c'))
       \<and> dcs_conf_rest c' = dcs_conf_rest c"
proof -
  have lit: "exclusion_string address = '' '' @ address @ ''/32 ''"
    by (simp only: exclusion_string_def)
  from remove_cluster_node_filters [OF assms] have
    f: "pg_hba c' = filter (\<lambda>entry. \<not> sublist ('' '' @ address @ ''/32 '') entry) (pg_hba c)"
    and r: "dcs_conf_rest c' = dcs_conf_rest c"
    unfolding lit by blast+
  from added_entries_excluded [of address] have
    a1: "sublist ('' '' @ address @ ''/32 '') (''hostssl all postgres '' @ address @ ''/32 md5'')"
    and a2: "sublist ('' '' @ address @ ''/32 '')
               (''hostssl replication replicator '' @ address @ ''/32 md5'')"
    unfolding lit by blast+
  have none: "\<forall>entry \<in> set (pg_hba c'). \<not> sublist ('' '' @ address @ ''/32 '') entry"
    unfolding f by simp
  have g1: "''hostssl all postgres '' @ address @ ''/32 md5'' \<notin> set (pg_hba c')"
    using none a1 by blast
  have g2: "''hostssl replication replicator '' @ address @ ''/32 md5'' \<notin> set (pg_hba c')"
    using none a2 by blast
  have kept: "\<forall>entry \<in> set (pg_hba c).
             \<not> sublist ('' '' @ address @ ''/32 '') entry \<longrightarrow> entry \<in> set (pg_hba c')"
    unfolding f by simp
  from f none g1 g2 kept r show ?thesis by (intro conjI)
qed

theorem remove_cluster_node_pg_hba_witness:
  "db_service (example_db_cluster example_members)
   \<and> remove_cluster_node (example_db_cluster example_members) ''192.0.2.3''
     = Inr ((example_db_cluster (take 2 example_members))
              \<lparr>pg_hba := [''hostssl all postgres 192.0.2.2/32 md5'',
                          ''hostssl replication replicator 192.0.2.2/32 md5'',
                          ''hostssl all postgres 192.0.2.1/32 md5'',
                          ''hostssl replication replicator 192.0.2.1/32 md5'',
                          ''hostssl replication replicator 127.0.0.1/32 md5'',
                          ''hostssl all all 0.0.0.0/0 md5'']\<rparr>)
   \<and> pg_hba (example_db_cluster example_members) =
       [''hostssl all postgres 192.0.2.3/32 md5'',
        ''hostssl replication replicator 192.0.2.3/32 md5'',
        ''hostssl all postgres 192.0.2.2/32 md5'',
        ''hostssl replication replicator 192.0.2.2/32 md5'',
        ''hostssl all postgres 192.0.2.1/32 md5'',
        ''hostssl replication replicator 192.0.2.1/32 md5'',
        ''hostssl replication replicator 127.0.0.1/32 md5'',
        ''hostssl all all 0.0.0.0/0 md5'']
   \<and> filter (\<lambda>entry. \<not> sublist ('' '' @ ''192.0.2.3'' @ ''/32 '') entry)
         (pg_hba (example_db_cluster example_members)) =
       [''hostssl all postgres 192.0.2.2/32 md5'',
        ''hostssl replication replicator 192.0.2.2/32 md5'',
        ''hostssl all postgres 192.0.2.1/32 md5'',
        ''hostssl replication replicator 192.0.2.1/32 md5'',
        ''hostssl replication replicator 127.0.0.1/32 md5'',
        ''hostssl all all 0.0.0.0/0 md5'']"
proof -
  let ?c = "example_db_cluster example_members"
  let ?c' = "(example_db_cluster (take 2 example_members))
              \<lparr>pg_hba := [''hostssl all postgres 192.0.2.2/32 md5'',
                          ''hostssl replication replicator 192.0.2.2/32 md5'',
                          ''hostssl all postgres 192.0.2.1/32 md5'',
                          ''hostssl replication replicator 192.0.2.1/32 md5'',
                          ''hostssl replication replicator 127.0.0.1/32 md5'',
                          ''hostssl all all 0.0.0.0/0 md5'']\<rparr>"
  have h1: "db_service ?c" by (simp add: example_db_cluster_def)
  have h2: "remove_cluster_node ?c ''192.0.2.3'' = Inr ?c'"
    by (simp add: remove_cluster_node_def topology_defs etcd_member_remove_def
        exclusion_string_def example_pg_hba_def add_node_to_pg_hba_def)
  have before: "pg_hba ?c =
       [''hostssl all postgres 192.0.2.3/32 md5'',
        ''hostssl replication replicator 192.0.2.3/32 md5'',
        ''hostssl all postgres 192.0.2.2/32 md5'',
        ''hostssl replication replicator 192.0.2.2/32 md5'',
        ''hostssl all postgres 192.0.2.1/32 md5'',
        ''hostssl replication replicator 192.0.2.1/32 md5'',
        ''hostssl replication replicator 127.0.0.1/32 md5'',
        ''hostssl all all 0.0.0.0/0 md5'']"
    by (simp add: example_db_cluster_def example_pg_hba_def add_node_to_pg_hba_def)
  from remove_cluster_node_pg_hba [OF h1 h2]
  have "filter (\<lambda>entry. \<not> sublist ('' '' @ ''192.0.2.3'' @ ''/32 '') entry) (pg_hba ?c) =
       [''hostssl all postgres 192.0.2.2/32 md5'',
        ''hostssl replication replicator 192.0.2.2/32 md5'',
        ''hostssl all postgres 192.0.2.1/32 md5'',
        ''hostssl replication replicator 192.0.2.1/32 md5'',
        ''hostssl replication replicator 127.0.0.1/32 md5'',
        ''hostssl all all 0.0.0.0/0 md5'']"
    by simp
  with h1 h2 before show ?thesis by (intro conjI)
qed

text \<open>
  The claim as the specification states it fails for an entry that names the address in
  another form: the entry with the address and a netmask is still in the list after
  192.0.2.3 has been removed.
\<close>

theorem remove_cluster_node_pg_hba_counterexample:
  "db_service example_db_cluster_netmask
   \<and> sublist ''192.0.2.3'' example_netmask_entry
   \<and> example_netmask_entry \<in> set (pg_hba example_db_cluster_netmask)
   \<and> remove_cluster_node example_db_cluster_netmask ''192.0.2.3''
     = Inr ((example_db_cluster (take 2 example_members))
              \<lparr>pg_hba := [example_netmask_entry,
                          ''hostssl all postgres 192.0.2.2/32 md5'',
                          ''hostssl replication replicator 192.0.2.2/32 md5'',
                          ''hostssl all postgres 192.0.2.1/32 md5'',
                          ''hostssl replication replicator 192.0.2.1/32 md5'',
                          ''hostssl replication replicator 127.0.0.1/32 md5'',
                          ''hostssl all all 0.0.0.0/0 md5'']\<rparr>)
   \<and> example_netmask_entry \<in>
       set (pg_hba ((example_db_cluster (take 2 example_members))
              \<lparr>pg_hba := [example_netmask_entry,
                          ''hostssl all postgres 192.0.2.2/32 md5'',
                          ''hostssl replication replicator 192.0.2.2/32 md5'',
                          ''hostssl all postgres 192.0.2.1/32 md5'',
                          ''hostssl replication replicator 192.0.2.1/32 md5'',
                          ''hostssl replication replicator 127.0.0.1/32 md5'',
                          ''hostssl all all 0.0.0.0/0 md5'']\<rparr>))"
  by (simp add: remove_cluster_node_def topology_defs etcd_member_remove_def
      exclusion_string_def example_pg_hba_def add_node_to_pg_hba_def
      example_db_cluster_netmask_def example_netmask_entry_def)

section \<open>Waiting for the new master\<close>

lemma wait_found:
  assumes "\<forall>j. i \<le> j \<and> j < i + k \<longrightarrow> (\<exists>rs. resolve j = Inr (Some address, rs))"
  shows "wait_for_master resolve address i k master =
           Inr (if k = 0 then master else Some address, replicate k Poll)"
  using assms
proof (induction k arbitrary: i master)
  case 0
  show ?case by simp
next
  case (Suc k)
  have "i \<le> i \<and> i < i + Suc k" by simp
  with Suc.prems have "\<exists>rs. resolve i = Inr (Some address, rs)" by blast
  then obtain rs where here: "resolve i = Inr (Some address, rs)" ..
  have next_polls: "\<forall>j. Suc i \<le> j \<and> j < Suc i + k \<longrightarrow> (\<exists>rs. resolve j = Inr (Some address, rs))"
  proof (intro allI impI)
    fix j assume "Suc i \<le> j \<and> j < Suc i + k"
    then have "i \<le> j \<and> j < i + Suc k" by simp
    with Suc.prems show "\<exists>rs. resolve j = Inr (Some address, rs)" by blast
  qed
  have rest: "wait_for_master resolve address (Suc i) k (Some address) =
           Inr (if k = 0 then Some address else Some address, replicate k Poll)"
    by (rule Suc.IH [OF next_polls])
  then have rest': "wait_for_master resolve address (Suc i) k (Some address) =
           Inr (Some address, replicate k Poll)" by simp
  show ?case
    by (simp only: wait_for_master.simps here rest' sum.case prod.case) simp
qed

lemma wait_not_yet:
  assumes "\<forall>j. i \<le> j \<and> j < i + n \<longrightarrow> (\<exists>m rs. resolve j = Inr (m, rs) \<and> m \<noteq> Some address)"
    and "\<forall>j. i + n \<le> j \<and> j < i + n + k \<longrightarrow> (\<exists>rs. resolve j = Inr (Some address, rs))"
    and "0 < k"
  shows "wait_for_master resolve address i (n + k) master =
           Inr (Some address, concat (replicate n [Poll, Sleep 1]) @ replicate k Poll)"
  using assms
proof (induction n arbitrary: i master)
  case 0
  from "0.prems"(2) have "\<forall>j. i \<le> j \<and> j < i + k \<longrightarrow> (\<exists>rs. resolve j = Inr (Some address, rs))"
    by simp
  from wait_found [OF this, of master] "0.prems"(3) show ?case by simp
next
  case (Suc n)
  have "i \<le> i \<and> i < i + Suc n" by simp
  with Suc.prems(1) have "\<exists>m rs. resolve i = Inr (m, rs) \<and> m \<noteq> Some address" by blast
  then obtain m rs where here: "resolve i = Inr (m, rs)" and m: "m \<noteq> Some address"
    by blast
  have a: "\<forall>j. Suc i \<le> j \<and> j < Suc i + n \<longrightarrow> (\<exists>m rs. resolve j = Inr (m, rs) \<and> m \<noteq> Some address)"
  proof (intro allI impI)
    fix j assume "Suc i \<le> j \<and> j < Suc i + n"
    then have "i \<le> j \<and> j < i + Suc n" by simp
    with Suc.prems(1) show "\<exists>m rs. resolve j = Inr (m, rs) \<and> m \<noteq> Some address" by blast
  qed
  have b: "\<forall>j. Suc i + n \<le> j \<and> j < Suc i + n + k \<longrightarrow> (\<exists>rs. resolve j = Inr (Some address, rs))"
  proof (intro allI impI)
    fix j assume "Suc i + n \<le> j \<and> j < Suc i + n + k"
    then have "i + Suc n \<le> j \<and> j < i + Suc n + k" by simp
    with Suc.prems(2) show "\<exists>rs. resolve j = Inr (Some address, rs)" by blast
  qed
  have rest: "wait_for_master resolve address (Suc i) (n + k) m =
           Inr (Some address, concat (replicate n [Poll, Sleep 1]) @ replicate k Poll)"
    by (rule Suc.IH [OF a b Suc.prems(3)])
  have "wait_for_master resolve address i (Suc (n + k)) master =
           Inr (Some address, Poll # [Sleep 1] @ concat (replicate n [Poll, Sleep 1]) @ replicate k Poll)"
    using m by (simp only: wait_for_master.simps here rest sum.case prod.case) simp
  then show ?case by simp
qed

text \<open>
  C9. \<^verbatim>\<open>set_master\<close> on a database node, for a replica of the cluster, when the polls
  show another master nine times and the candidate from the tenth poll on: it reports that
  the master changed; it issues the switchover, then polls and sleeps one second nine
  times, then polls twenty-one times without sleeping. That is thirty polls, the tenth of
  them the twentieth event, and no sleep after it.
\<close>

theorem set_master_observes_change:
  assumes "db_service c"
    and "get_cluster_addresses c = Inr (master, replicas)"
    and "Some address \<noteq> master"
    and "address \<in> set replicas"
    and "\<forall>i. i < 9 \<longrightarrow> (\<exists>m rs. resolve i = Inr (m, rs) \<and> m \<noteq> Some address)"
    and "\<forall>i. 9 \<le> i \<and> i < 30 \<longrightarrow> (\<exists>rs. resolve i = Inr (Some address, rs))"
  shows "\<exists>events.
           set_master c resolve address = Inr (MasterChanged, events)
         \<and> events = Switchover (get_patroni_id address) #
                      concat (replicate 9 [Poll, Sleep 1]) @ replicate 21 Poll
         \<and> length (filter (\<lambda>e. e = Poll) events) = 30
         \<and> (\<forall>e \<in> set events. \<forall>s. e = Sleep s \<longrightarrow> s = 1)
         \<and> events ! 19 = Poll
         \<and> length (filter (\<lambda>e. e = Poll) (take 20 events)) = 10
         \<and> (\<forall>e \<in> set (drop 20 events). e = Poll)"
proof -
  have a: "\<forall>j. 0 \<le> j \<and> j < 0 + 9 \<longrightarrow> (\<exists>m rs. resolve j = Inr (m, rs) \<and> m \<noteq> Some address)"
    using assms(5) by simp
  have b: "\<forall>j. 0 + 9 \<le> j \<and> j < 0 + 9 + 21 \<longrightarrow> (\<exists>rs. resolve j = Inr (Some address, rs))"
    using assms(6) by simp
  have k: "(0::nat) < 21" by simp
  have "wait_for_master resolve address 0 (9 + 21) master =
          Inr (Some address, concat (replicate 9 [Poll, Sleep 1]) @ replicate 21 Poll)"
    by (rule wait_not_yet [OF a b k])
  moreover have "(9::nat) + 21 = 30" by simp
  ultimately have loop: "wait_for_master resolve address 0 30 master =
          Inr (Some address, concat (replicate 9 [Poll, Sleep 1]) @ replicate 21 Poll)"
    by (simp only:)
  have mem: "\<not> Some address \<notin> set (master # map Some replicas)" using assms(4) by simp
  let ?events = "Switchover (get_patroni_id address) #
                 concat (replicate 9 [Poll, Sleep 1]) @ replicate 21 Poll"
  have nm: "(Some address = master) = False" using assms(3) by simp
  have run: "set_master c resolve address = Inr (MasterChanged, ?events)"
    unfolding set_master_def
    by (simp only: assms(1) assms(2) sum.case prod.case nm mem loop if_True if_False refl)
  have explicit: "concat (replicate 9 [Poll, Sleep 1]) @ replicate 21 Poll =
     [Poll, Sleep 1, Poll, Sleep 1, Poll, Sleep 1, Poll, Sleep 1, Poll, Sleep 1,
      Poll, Sleep 1, Poll, Sleep 1, Poll, Sleep 1, Poll, Sleep 1,
      Poll, Poll, Poll, Poll, Poll, Poll, Poll, Poll, Poll, Poll, Poll,
      Poll, Poll, Poll, Poll, Poll, Poll, Poll, Poll, Poll, Poll]"
    by (simp add: numeral_eq_Suc)
  have c1: "length (filter (\<lambda>e. e = Poll) ?events) = 30"
    unfolding explicit by simp
  have c2: "\<forall>e \<in> set ?events. \<forall>s. e = Sleep s \<longrightarrow> s = 1"
    unfolding explicit by simp
  have c3: "?events ! 19 = Poll"
    unfolding explicit by simp
  have c4: "length (filter (\<lambda>e. e = Poll) (take 20 ?events)) = 10"
    unfolding explicit by simp
  have c5: "\<forall>e \<in> set (drop 20 ?events). e = Poll"
    unfolding explicit by simp
  show ?thesis
  proof (intro exI [of _ ?events] conjI)
    show "set_master c resolve address = Inr (MasterChanged, ?events)" by (rule run)
    show "?events = ?events" by (rule refl)
    show "length (filter (\<lambda>e. e = Poll) ?events) = 30" by (rule c1)
    show "\<forall>e \<in> set ?events. \<forall>s. e = Sleep s \<longrightarrow> s = 1" by (rule c2)
    show "?events ! 19 = Poll" by (rule c3)
    show "length (filter (\<lambda>e. e = Poll) (take 20 ?events)) = 10" by (rule c4)
    show "\<forall>e \<in> set (drop 20 ?events). e = Poll" by (rule c5)
  qed
qed

theorem set_master_observes_change_witness:
  "db_service (example_db_cluster example_members)
   \<and> get_cluster_addresses (example_db_cluster example_members)
       = Inr (Some ''192.0.2.1'', [''192.0.2.2'', ''192.0.2.3''])
   \<and> set_master (example_db_cluster example_members) example_resolve ''192.0.2.2''
       = Inr (MasterChanged,
              Switchover ''pg192_0_2_2'' #
                concat (replicate 9 [Poll, Sleep 1]) @ replicate 21 Poll)"
proof -
  let ?c = "example_db_cluster example_members"
  have h1: "db_service ?c" by (simp add: example_db_cluster_def)
  have h2: "get_cluster_addresses ?c = Inr (Some ''192.0.2.1'', [''192.0.2.2'', ''192.0.2.3''])"
    by (simp add: topology_defs)
  have h3: "Some ''192.0.2.2'' \<noteq> Some ''192.0.2.1''" by simp
  have h4: "''192.0.2.2'' \<in> set [''192.0.2.2'', ''192.0.2.3'']" by simp
  have h5: "\<forall>i. i < 9 \<longrightarrow>
              (\<exists>m rs. example_resolve i = Inr (m, rs) \<and> m \<noteq> Some ''192.0.2.2'')"
    by (simp add: example_resolve_def)
  have h6: "\<forall>i. 9 \<le> i \<and> i < 30 \<longrightarrow>
              (\<exists>rs. example_resolve i = Inr (Some ''192.0.2.2'', rs))"
    by (simp add: example_resolve_def)
  have id: "get_patroni_id ''192.0.2.2'' = ''pg192_0_2_2''"
    by (simp add: get_patroni_id_def)
  from set_master_observes_change [OF h1 h2 h3 h4 h5 h6] obtain events where
    "set_master ?c example_resolve ''192.0.2.2'' = Inr (MasterChanged, events)"
    and "events = Switchover (get_patroni_id ''192.0.2.2'') #
                    concat (replicate 9 [Poll, Sleep 1]) @ replicate 21 Poll"
    by blast
  then have "set_master ?c example_resolve ''192.0.2.2''
       = Inr (MasterChanged,
              Switchover ''pg192_0_2_2'' #
                concat (replicate 9 [Poll, Sleep 1]) @ replicate 21 Poll)"
    by (simp only: id)
  with h1 h2 show ?thesis by (intro conjI)
qed

section \<open>The master seen through haproxy\<close>

lemma scan_backends_result:
  assumes "\<forall>b \<in> set bs. \<exists>a. server_name b = Inr a"
  shows "\<exists>m' rs'. scan_backends m rs bs = Inr (m', rs')
           \<and> (filter (\<lambda>b. bk_status b = ''UP'') bs = [] \<longrightarrow> m' = m)
           \<and> (filter (\<lambda>b. bk_status b = ''UP'') bs \<noteq> [] \<longrightarrow>
                (\<exists>a. m' = Some a
                   \<and> server_name (last (filter (\<lambda>b. bk_status b = ''UP'') bs)) = Inr a))
           \<and> map Inr rs' = map Inr rs @ map server_name (filter (\<lambda>b. bk_status b \<noteq> ''UP'') bs)"
  using assms
proof (induction bs arbitrary: m rs)
  case Nil
  then show ?case by simp
next
  case (Cons b bs)
  let ?ups = "filter (\<lambda>b. bk_status b = ''UP'') bs"
  let ?others = "filter (\<lambda>b. bk_status b \<noteq> ''UP'') bs"
  from Cons.prems obtain a where a: "server_name b = Inr a" by auto
  have rest: "\<forall>b \<in> set bs. \<exists>a. server_name b = Inr a" using Cons.prems by simp
  show ?case
  proof (cases "bk_status b = ''UP''")
    case True
    from Cons.IH [OF rest, of "Some a" rs] obtain m' rs' where
      r: "scan_backends (Some a) rs bs = Inr (m', rs')"
      and e: "?ups = [] \<longrightarrow> m' = Some a"
      and l: "?ups \<noteq> [] \<longrightarrow> (\<exists>a. m' = Some a \<and> server_name (last ?ups) = Inr a)"
      and rp: "map Inr rs' = map Inr rs @ map server_name ?others"
      by blast
    have run: "scan_backends m rs (b # bs) = Inr (m', rs')" using True a r by simp
    have up: "filter (\<lambda>b. bk_status b = ''UP'') (b # bs) = b # ?ups" using True by simp
    have ot: "filter (\<lambda>b. bk_status b \<noteq> ''UP'') (b # bs) = ?others" using True by simp
    have "\<exists>a'. m' = Some a' \<and> server_name (last (b # ?ups)) = Inr a'"
    proof (cases "?ups = []")
      case True
      with e a show ?thesis by simp
    next
      case False
      with l show ?thesis by simp
    qed
    with run rp show ?thesis unfolding up ot by blast
  next
    case False
    from Cons.IH [OF rest, of m "rs @ [a]"] obtain m' rs' where
      r: "scan_backends m (rs @ [a]) bs = Inr (m', rs')"
      and e: "?ups = [] \<longrightarrow> m' = m"
      and l: "?ups \<noteq> [] \<longrightarrow> (\<exists>a. m' = Some a \<and> server_name (last ?ups) = Inr a)"
      and rp: "map Inr rs' = map Inr (rs @ [a]) @ map server_name ?others"
      by blast
    have run: "scan_backends m rs (b # bs) = Inr (m', rs')" using False a r by simp
    have up: "filter (\<lambda>b. bk_status b = ''UP'') (b # bs) = ?ups" using False by simp
    have ot: "filter (\<lambda>b. bk_status b \<noteq> ''UP'') (b # bs) = b # ?others" using False by simp
    have rp': "map Inr rs' = map Inr rs @ map server_name (b # ?others)"
      using rp a by simp
    from run e l rp' show ?thesis unfolding up ot by blast
  qed
qed

text \<open>
  C10, as the code has it. On a manager, for a haproxy table whose server names all have
  an underscore and in which two or more rows are \<^verbatim>\<open>UP\<close>, the resolution returns the
  address of the last such row as master and the addresses of the other rows, in order,
  as replicas. The address of an earlier row that is \<^verbatim>\<open>UP\<close> is therefore in neither,
  provided it is not also the address of the last such row or of a row that is not
  \<^verbatim>\<open>UP\<close>.
\<close>

theorem proxy_topology_last_up:
  assumes "\<not> db_service c" and "manager_service c"
    and "\<forall>b \<in> set (haproxy_servers c). \<exists>a. server_name b = Inr a"
    and "2 \<le> length (filter (\<lambda>b. bk_status b = ''UP'') (haproxy_servers c))"
  shows "\<exists>a replicas.
           get_cluster_addresses c = Inr (Some a, replicas)
         \<and> server_name (last (filter (\<lambda>b. bk_status b = ''UP'') (haproxy_servers c))) = Inr a
         \<and> map Inr replicas =
             map server_name (filter (\<lambda>b. bk_status b \<noteq> ''UP'') (haproxy_servers c))
         \<and> (\<forall>b \<in> set (butlast (filter (\<lambda>b. bk_status b = ''UP'') (haproxy_servers c))).
              \<forall>a'. server_name b = Inr a' \<and> a' \<noteq> a
                   \<and> (\<forall>d \<in> set (haproxy_servers c).
                         bk_status d \<noteq> ''UP'' \<longrightarrow> server_name d \<noteq> Inr a')
                 \<longrightarrow> Some a' \<noteq> Some a \<and> a' \<notin> set replicas)"
proof -
  let ?ups = "filter (\<lambda>b. bk_status b = ''UP'') (haproxy_servers c)"
  from assms(4) have ne: "?ups \<noteq> []" by auto
  from scan_backends_result [OF assms(3), of None "[]"] obtain m' rs' where
    r: "scan_backends None [] (haproxy_servers c) = Inr (m', rs')"
    and l0: "?ups \<noteq> [] \<longrightarrow> (\<exists>a. m' = Some a \<and> server_name (last ?ups) = Inr a)"
    and rp0: "map Inr rs' = map Inr [] @
                map server_name (filter (\<lambda>b. bk_status b \<noteq> ''UP'') (haproxy_servers c))"
    by blast
  from l0 ne obtain a where m': "m' = Some a" and l: "server_name (last ?ups) = Inr a"
    by blast
  from rp0 have rp: "map Inr rs' =
      map server_name (filter (\<lambda>b. bk_status b \<noteq> ''UP'') (haproxy_servers c))"
    by simp
  have res: "get_cluster_addresses c = Inr (Some a, rs')"
    using assms(1,2) r m' by (simp add: get_cluster_addresses_def)
  have dropped: "a' \<notin> set rs'"
    if "\<forall>d \<in> set (haproxy_servers c). bk_status d \<noteq> ''UP'' \<longrightarrow> server_name d \<noteq> Inr a'" for a'
  proof
    assume "a' \<in> set rs'"
    then have "Inr a' \<in> set (map Inr rs' :: (error + address) list)" by simp
    then have "Inr a' \<in> set (map server_name (filter (\<lambda>b. bk_status b \<noteq> ''UP'') (haproxy_servers c)))"
      using rp by simp
    then obtain d where "d \<in> set (haproxy_servers c)" "bk_status d \<noteq> ''UP''" "server_name d = Inr a'"
      by auto
    with that show False by blast
  qed
  show ?thesis
  proof (intro exI [of _ a] exI [of _ rs'] conjI ballI allI impI)
    show "get_cluster_addresses c = Inr (Some a, rs')" by (rule res)
    show "server_name (last ?ups) = Inr a" by (rule l)
    show "map Inr rs' = map server_name (filter (\<lambda>b. bk_status b \<noteq> ''UP'') (haproxy_servers c))"
      by (rule rp)
  next
    fix b a'
    assume "server_name b = Inr a' \<and> a' \<noteq> a
              \<and> (\<forall>d \<in> set (haproxy_servers c).
                    bk_status d \<noteq> ''UP'' \<longrightarrow> server_name d \<noteq> Inr a')"
    then show "Some a' \<noteq> Some a" and "a' \<notin> set rs'" using dropped by simp_all
  qed
qed

theorem proxy_topology_last_up_witness:
  "\<not> db_service (example_manager_cluster example_servers)
   \<and> manager_service (example_manager_cluster example_servers)
   \<and> get_cluster_addresses (example_manager_cluster example_servers)
       = Inr (Some ''192.0.2.3'', [''192.0.2.2''])
   \<and> server_name (hd example_servers) = Inr ''192.0.2.1''
   \<and> ''192.0.2.1'' \<notin> set [''192.0.2.2'']"
proof -
  let ?c = "example_manager_cluster example_servers"
  have h1: "\<not> db_service ?c" and h2: "manager_service ?c"
    by (simp_all add: example_manager_cluster_def)
  have names: "map server_name example_servers =
                 [Inr ''192.0.2.1'', Inr ''192.0.2.2'', Inr ''192.0.2.3'']"
    by (simp add: example_servers_def server_name_def)
  have h3: "\<forall>b \<in> set (haproxy_servers ?c). \<exists>a. server_name b = Inr a"
    by (simp add: example_manager_cluster_def example_servers_def server_name_def)
  have h4: "2 \<le> length (filter (\<lambda>b. bk_status b = ''UP'') (haproxy_servers ?c))"
    by (simp add: example_manager_cluster_def example_servers_def)
  from proxy_topology_last_up [OF h1 h2 h3 h4] obtain a replicas where
    res: "get_cluster_addresses ?c = Inr (Some a, replicas)"
    and last: "server_name (last (filter (\<lambda>b. bk_status b = ''UP'') (haproxy_servers ?c))) = Inr a"
    and reps: "map Inr replicas =
             map server_name (filter (\<lambda>b. bk_status b \<noteq> ''UP'') (haproxy_servers ?c))"
    by blast
  from last have a: "a = ''192.0.2.3''"
    by (simp add: example_manager_cluster_def example_servers_def server_name_def)
  from reps have "map Inr replicas = [Inr ''192.0.2.2'' :: error + address]"
    by (simp add: example_manager_cluster_def example_servers_def server_name_def)
  then have r: "replicas = [''192.0.2.2'']" by auto
  have first: "server_name (hd example_servers) = Inr ''192.0.2.1''"
    by (simp add: example_servers_def server_name_def)
  from res a r h1 h2 first show ?thesis by simp
qed

text \<open>
  The claim as stated fails when an address occurs in more than one row: here the first
  row is \<^verbatim>\<open>UP\<close> and not the last such row, yet its address is returned among the
  replicas, because the same address has a second row that is down.
\<close>

theorem proxy_topology_counterexample:
  "length (filter (\<lambda>b. bk_status b = ''UP'') example_servers_shared_address) = 2
   \<and> bk_status (example_servers_shared_address ! 0) = ''UP''
   \<and> server_name (example_servers_shared_address ! 0) = Inr ''192.0.2.1''
   \<and> last (filter (\<lambda>b. bk_status b = ''UP'') example_servers_shared_address)
       = example_servers_shared_address ! 2
   \<and> get_cluster_addresses (example_manager_cluster example_servers_shared_address)
       = Inr (Some ''192.0.2.2'', [''192.0.2.1''])
   \<and> ''192.0.2.1'' \<in> set [''192.0.2.1'']"
  by (simp add: example_servers_shared_address_def example_manager_cluster_def
      get_cluster_addresses_def server_name_def)

end
